theory Spec2Isabelle
  imports Complex_Main
begin

section \<open>Python values handled by the ETL module\<close>

text \<open>
  The module \<^verbatim>\<open>scripts/etl_historical.py\<close> reads cells of provider tables (pandas rows)
  and converts them with \<^verbatim>\<open>pd.isna\<close>, \<^verbatim>\<open>int\<close>, \<^verbatim>\<open>float\<close>, \<^verbatim>\<open>str\<close>, \<^verbatim>\<open>bool\<close> and
  \<^verbatim>\<open>total_seconds\<close>. A cell is a scalar: \<^verbatim>\<open>None\<close>, a float NaN, pandas \<^verbatim>\<open>NaT\<close>, a bool,
  an int, a finite float (a real number here; rounding is not modelled), a string (over
  ASCII), a pandas Timedelta (its count of nanoseconds) or a pandas Timestamp
  (nanoseconds since the epoch).
\<close>

datatype pyval =
    PyNone
  | PyNaN
  | PyNaT
  | PyBool bool
  | PyInt int
  | PyFloat real
  | PyStr string
  | PyTimedelta int
  | PyTimestamp int

text \<open>
  An argument of a function of the module is a scalar or an array-like (a Python list
  of one or more scalars), on which \<^verbatim>\<open>pd.isna\<close> answers with an array of booleans.
\<close>

datatype pyobj =
    Scalar pyval
  | PyList pyval "pyval list"

datatype exn =
    KeyError
  | IndexError
  | ValueError
  | TypeError
  | AttributeError
  | IntegrityError
  | ProviderError

text \<open>
  What the Python runtime does with text is a parameter of the model: \<^verbatim>\<open>str(v)\<close> for a
  value that is not a string, and the parsers behind \<^verbatim>\<open>int(s)\<close> and \<^verbatim>\<open>float(s)\<close> for a
  string (\<open>None\<close> where they raise ValueError).
\<close>

record pyrt =
  str_repr :: "pyval \<Rightarrow> string"
  int_parse :: "string \<Rightarrow> int option"
  float_parse :: "string \<Rightarrow> real option"

text \<open>\<^verbatim>\<open>pd.isna(v)\<close> on a scalar.\<close>

fun pd_isna :: "pyval \<Rightarrow> bool" where
  "pd_isna PyNone = True"
| "pd_isna PyNaN = True"
| "pd_isna PyNaT = True"
| "pd_isna _ = False"

definition pd_notna :: "pyval \<Rightarrow> bool" where
  "pd_notna v = (\<not> pd_isna v)"

text \<open>
  The truth value of \<^verbatim>\<open>pd.isna(td)\<close> as the condition of an \<^verbatim>\<open>if\<close>: on an array-like the
  result is an array, whose truth value is the one of its element when it has exactly
  one, and a ValueError (ambiguous truth value) when it has more.
\<close>

fun isna_truth :: "pyobj \<Rightarrow> exn + bool" where
  "isna_truth (Scalar v) = Inr (pd_isna v)"
| "isna_truth (PyList x []) = Inr (pd_isna x)"
| "isna_truth (PyList x (y # ys)) = Inl ValueError"

text \<open>\<^verbatim>\<open>td.total_seconds()\<close>: only a Timedelta has the method.\<close>

fun total_seconds :: "pyobj \<Rightarrow> exn + real" where
  "total_seconds (Scalar (PyTimedelta ns)) = Inr (real_of_int ns / 1000000000)"
| "total_seconds _ = Inl AttributeError"

text \<open>
  \<^verbatim>\<open>
  def convert_timedelta_to_seconds(td):
      if pd.isna(td):
          return None
      try:
          return td.total_seconds()
      except (AttributeError, TypeError):
          return None
  \<close>
  The test of \<^verbatim>\<open>pd.isna\<close> stands before the \<^verbatim>\<open>try\<close>, so what it raises leaves the
  function.
\<close>

definition convert_timedelta_to_seconds :: "pyobj \<Rightarrow> exn + real option" where
  "convert_timedelta_to_seconds td =
     (case isna_truth td of
        Inl e \<Rightarrow> Inl e
      | Inr True \<Rightarrow> Inr None
      | Inr False \<Rightarrow>
          (case total_seconds td of
             Inr secs \<Rightarrow> Inr (Some secs)
           | Inl AttributeError \<Rightarrow> Inr None
           | Inl TypeError \<Rightarrow> Inr None
           | Inl e \<Rightarrow> Inl e))"

subsection \<open>Strings\<close>

definition lower_char :: "char \<Rightarrow> char" where
  "lower_char c =
     (if 65 \<le> (of_char c :: nat) \<and> (of_char c :: nat) \<le> 90
      then char_of (of_char c + 32 :: nat) else c)"

text \<open>\<^verbatim>\<open>s.lower()\<close>, on ASCII.\<close>

definition py_lower :: "string \<Rightarrow> string" where
  "py_lower s = map lower_char s"

text \<open>\<^verbatim>\<open>s.replace(old, new)\<close> for an \<^verbatim>\<open>old\<close> of one character.\<close>

definition py_replace :: "char \<Rightarrow> string \<Rightarrow> string \<Rightarrow> string" where
  "py_replace old new s = concat (map (\<lambda>c. if c = old then new else [c]) s)"

text \<open>The ASCII characters \<^verbatim>\<open>str.strip()\<close> removes: 9 to 13, 28 to 32.\<close>

definition is_space :: "char \<Rightarrow> bool" where
  "is_space c =
     ((9 \<le> (of_char c :: nat) \<and> (of_char c :: nat) \<le> 13)
      \<or> (28 \<le> (of_char c :: nat) \<and> (of_char c :: nat) \<le> 32))"

definition py_strip :: "string \<Rightarrow> string" where
  "py_strip s = rev (dropWhile is_space (rev (dropWhile is_space s)))"

text \<open>
  \<^verbatim>\<open>circuit_key = str(event['EventName']).lower().replace(' ', '_').replace("'", "").replace('-', '_')\<close>
\<close>

definition circuit_key_of :: "string \<Rightarrow> string" where
  "circuit_key_of name =
     py_replace (CHR ''-'') ''_''
       (py_replace (CHR 0x27) [] (py_replace (CHR '' '') ''_'' (py_lower name)))"

text \<open>
  \<^verbatim>\<open>team_key = team_name.lower().replace(' ', '_').replace('-', '_')\<close>, on the stripped
  name.
\<close>

definition team_key_of :: "string \<Rightarrow> string" where
  "team_key_of team_name =
     py_replace (CHR ''-'') ''_'' (py_replace (CHR '' '') ''_'' (py_lower team_name))"

text \<open>
  The derivation in the words of the specification, to compare the code with: the name
  lower-cased, apostrophes removed, spaces and hyphens turned into underscores.
\<close>

definition to_underscore :: "char \<Rightarrow> char" where
  "to_underscore c = (if c = CHR '' '' \<or> c = CHR ''-'' then CHR ''_'' else c)"

definition spec_natural_key :: "string \<Rightarrow> string" where
  "spec_natural_key name =
     map to_underscore (filter (\<lambda>c. c \<noteq> CHR 0x27) (map lower_char name))"

subsection \<open>Conversions of cells\<close>

text \<open>A Python float that a column stores: finite, or NaN.\<close>

datatype pyfloat = Finite real | NotANumber

definition py_str :: "pyrt \<Rightarrow> pyval \<Rightarrow> string" where
  "py_str rt v = (case v of PyStr s \<Rightarrow> s | _ \<Rightarrow> str_repr rt v)"

text \<open>\<^verbatim>\<open>int(v)\<close>: a float is truncated towards zero.\<close>

fun py_int :: "pyrt \<Rightarrow> pyval \<Rightarrow> exn + int" where
  "py_int rt PyNone = Inl TypeError"
| "py_int rt PyNaN = Inl ValueError"
| "py_int rt PyNaT = Inr (- 9223372036854775808)"
| "py_int rt (PyBool b) = Inr (if b then 1 else 0)"
| "py_int rt (PyInt n) = Inr n"
| "py_int rt (PyFloat r) = Inr (if 0 \<le> r then \<lfloor>r\<rfloor> else \<lceil>r\<rceil>)"
| "py_int rt (PyStr s) = (case int_parse rt s of None \<Rightarrow> Inl ValueError | Some n \<Rightarrow> Inr n)"
| "py_int rt (PyTimedelta ns) = Inl TypeError"
| "py_int rt (PyTimestamp ns) = Inl TypeError"

fun py_float :: "pyrt \<Rightarrow> pyval \<Rightarrow> exn + pyfloat" where
  "py_float rt PyNone = Inl TypeError"
| "py_float rt PyNaN = Inr NotANumber"
| "py_float rt PyNaT = Inl TypeError"
| "py_float rt (PyBool b) = Inr (Finite (if b then 1 else 0))"
| "py_float rt (PyInt n) = Inr (Finite (real_of_int n))"
| "py_float rt (PyFloat r) = Inr (Finite r)"
| "py_float rt (PyStr s) =
     (case float_parse rt s of None \<Rightarrow> Inl ValueError | Some r \<Rightarrow> Inr (Finite r))"
| "py_float rt (PyTimedelta ns) = Inl TypeError"
| "py_float rt (PyTimestamp ns) = Inl TypeError"

text \<open>The truth value of a scalar (\<^verbatim>\<open>bool(v)\<close>, \<^verbatim>\<open>not v\<close>).\<close>

fun py_bool :: "pyval \<Rightarrow> bool" where
  "py_bool PyNone = False"
| "py_bool PyNaN = True"
| "py_bool PyNaT = True"
| "py_bool (PyBool b) = b"
| "py_bool (PyInt n) = (n \<noteq> 0)"
| "py_bool (PyFloat r) = (r \<noteq> 0)"
| "py_bool (PyStr s) = (s \<noteq> [])"
| "py_bool (PyTimedelta ns) = (ns \<noteq> 0)"
| "py_bool (PyTimestamp ns) = True"

text \<open>\<^verbatim>\<open>ts.date()\<close>: the day of a Timestamp; nothing else has the method.\<close>

fun py_date :: "pyval \<Rightarrow> exn + int" where
  "py_date (PyTimestamp ns) = Inr (ns div 86400000000000)"
| "py_date _ = Inl AttributeError"

subsection \<open>Rows of provider tables\<close>

text \<open>A row (a pandas Series) associates column names with cells.\<close>

type_synonym row = "(string \<times> pyval) list"

text \<open>\<^verbatim>\<open>row[key]\<close> raises KeyError on a missing key.\<close>

definition getitem :: "row \<Rightarrow> string \<Rightarrow> exn + pyval" where
  "getitem r k = (case map_of r k of None \<Rightarrow> Inl KeyError | Some v \<Rightarrow> Inr v)"

text \<open>\<^verbatim>\<open>row.get(key, default)\<close> and \<^verbatim>\<open>row.get(key)\<close>.\<close>

definition row_get_default :: "row \<Rightarrow> string \<Rightarrow> pyval \<Rightarrow> pyval" where
  "row_get_default r k d = (case map_of r k of None \<Rightarrow> d | Some v \<Rightarrow> v)"

definition row_get :: "row \<Rightarrow> string \<Rightarrow> pyval" where
  "row_get r k = row_get_default r k PyNone"

text \<open>\<^verbatim>\<open>table[key]\<close>, the column of a table: every row has the table's columns.\<close>

fun column :: "row list \<Rightarrow> string \<Rightarrow> exn + pyval list" where
  "column [] k = Inr []"
| "column (r # rs) k =
     (case getitem r k of
        Inl e \<Rightarrow> Inl e
      | Inr v \<Rightarrow> (case column rs k of Inl e \<Rightarrow> Inl e | Inr vs \<Rightarrow> Inr (v # vs)))"

text \<open>Sequencing of computations that may raise.\<close>

definition sbind :: "exn + 'a \<Rightarrow> ('a \<Rightarrow> exn + 'b) \<Rightarrow> exn + 'b" where
  "sbind m f = (case m of Inl e \<Rightarrow> Inl e | Inr x \<Rightarrow> f x)"

text \<open>\<^verbatim>\<open>int(row[key]) if pd.notna(row[key]) else None\<close>\<close>

definition int_if_notna :: "pyrt \<Rightarrow> row \<Rightarrow> string \<Rightarrow> exn + int option" where
  "int_if_notna rt r k =
     sbind (getitem r k) (\<lambda>v.
       if pd_notna v then sbind (py_int rt v) (\<lambda>n. Inr (Some n)) else Inr None)"

text \<open>\<^verbatim>\<open>float(row[key]) if pd.notna(row.get(key)) else None\<close>\<close>

definition float_if_notna :: "pyrt \<Rightarrow> row \<Rightarrow> string \<Rightarrow> exn + pyfloat option" where
  "float_if_notna rt r k =
     (if pd_notna (row_get r k)
      then sbind (getitem r k) (\<lambda>v. sbind (py_float rt v) (\<lambda>x. Inr (Some x)))
      else Inr None)"

text \<open>\<^verbatim>\<open>str(row.get(key)) if pd.notna(row.get(key)) else None\<close>\<close>

definition str_if_notna :: "pyrt \<Rightarrow> row \<Rightarrow> string \<Rightarrow> string option" where
  "str_if_notna rt r k =
     (if pd_notna (row_get r k) then Some (py_str rt (row_get r k)) else None)"

section \<open>The store\<close>

text \<open>
  The tables of \<^verbatim>\<open>models/database.py\<close>, with the columns the ETL module writes. The
  columns declared \<^verbatim>\<open>nullable=False\<close> that the module always fills have no \<open>option\<close>;
  the lap number of a lap time and of a pit stop is declared \<^verbatim>\<open>nullable=False\<close> and may
  be handed \<^verbatim>\<open>None\<close>. The reference tables and the races carry their primary key.
\<close>

record circuit =
  circuit_pk :: nat
  circuit_key :: string
  circuit_name :: string
  circuit_location :: string
  circuit_country :: string

record driver =
  driver_pk :: nat
  driver_number :: "int option"
  driver_code :: string
  first_name :: string
  last_name :: string
  broadcast_name :: string
  driver_nationality :: string

record team =
  team_pk :: nat
  team_key :: string
  team_name :: string

record race =
  race_pk :: nat
  race_year :: int
  round_number :: int
  race_name :: string
  race_circuit_id :: nat
  race_date :: "int option"

record qualifying_result =
  qr_race_id :: nat
  qr_driver_id :: nat
  qr_position :: "int option"
  q1_time :: "real option"
  q2_time :: "real option"
  q3_time :: "real option"

record race_result =
  rr_race_id :: nat
  rr_driver_id :: nat
  rr_team_id :: "nat option"
  grid_position :: "int option"
  final_position :: "int option"
  points :: "pyfloat option"
  status :: string

record lap_time =
  lt_race_id :: nat
  lt_driver_id :: nat
  lt_lap_number :: "int option"
  lt_lap_time :: "real option"
  lt_compound :: "string option"
  tyre_life :: "int option"

record pit_stop =
  ps_race_id :: nat
  ps_driver_id :: nat
  ps_lap_number :: "int option"
  pit_duration :: "real option"
  compound_after :: "string option"

record weather_entry =
  w_race_id :: nat
  air_temp :: "pyfloat option"
  track_temp :: "pyfloat option"
  humidity :: "pyfloat option"
  pressure :: "pyfloat option"
  rainfall :: bool

record db =
  circuits :: "circuit list"
  drivers :: "driver list"
  teams :: "team list"
  races :: "race list"
  qualifying_results :: "qualifying_result list"
  race_results :: "race_result list"
  lap_times :: "lap_time list"
  pit_stops :: "pit_stop list"
  weather_rows :: "weather_entry list"

text \<open>
  The constraints of the schema that a commit checks: \<^verbatim>\<open>unique=True\<close> on
  \<^verbatim>\<open>circuits.circuit_key\<close>, \<^verbatim>\<open>teams.team_key\<close> and \<^verbatim>\<open>drivers.driver_number\<close> (NULLs do
  not collide), and \<^verbatim>\<open>nullable=False\<close> on the lap number of lap times and pit stops.
\<close>

definition integrity_ok :: "db \<Rightarrow> bool" where
  "integrity_ok d =
     (distinct (map circuit_key (circuits d))
      \<and> distinct (map team_key (teams d))
      \<and> distinct (filter (\<lambda>n. n \<noteq> None) (map driver_number (drivers d)))
      \<and> list_all (\<lambda>l. lt_lap_number l \<noteq> None) (lap_times d)
      \<and> list_all (\<lambda>p. ps_lap_number p \<noteq> None) (pit_stops d))"

text \<open>
  A SQLAlchemy session: \<open>cur\<close> is the store as the open transaction sees it (what has
  been added is in it), \<open>saved\<close> the store at the last commit.
\<close>

record dbsession =
  cur :: db
  saved :: db

text \<open>
  A function of the module runs on the session and returns a value or raises; what it
  did to the session before raising stays done.
\<close>

type_synonym 'a io = "dbsession \<Rightarrow> (exn + 'a) \<times> dbsession"

definition ret :: "'a \<Rightarrow> 'a io" where
  "ret x s = (Inr x, s)"

definition raise :: "exn \<Rightarrow> 'a io" where
  "raise e s = (Inl e, s)"

definition bind :: "'a io \<Rightarrow> ('a \<Rightarrow> 'b io) \<Rightarrow> 'b io" where
  "bind m f s = (case m s of (Inl e, s') \<Rightarrow> (Inl e, s') | (Inr x, s') \<Rightarrow> f x s')"

definition lift :: "exn + 'a \<Rightarrow> 'a io" where
  "lift r s = (r, s)"

text \<open>\<^verbatim>\<open>try: body  except Exception as e: handler(e)\<close>\<close>

definition try_except :: "'a io \<Rightarrow> (exn \<Rightarrow> 'a io) \<Rightarrow> 'a io" where
  "try_except body handler s =
     (case body s of (Inl e, s') \<Rightarrow> handler e s' | (Inr x, s') \<Rightarrow> (Inr x, s'))"

text \<open>\<^verbatim>\<open>for x in xs: f(x)\<close>, adding up what the steps count.\<close>

fun for_each :: "('a \<Rightarrow> nat io) \<Rightarrow> 'a list \<Rightarrow> nat io" where
  "for_each f [] s = (Inr 0, s)"
| "for_each f (x # xs) s =
     (case f x s of
        (Inl e, s') \<Rightarrow> (Inl e, s')
      | (Inr n, s') \<Rightarrow>
          (case for_each f xs s' of
             (Inl e, s'') \<Rightarrow> (Inl e, s'')
           | (Inr m, s'') \<Rightarrow> (Inr (n + m), s'')))"

text \<open>\<^verbatim>\<open>session_obj.commit()\<close> and \<^verbatim>\<open>session_obj.rollback()\<close>\<close>

definition commit :: "unit io" where
  "commit s =
     (if integrity_ok (cur s) then (Inr (), s\<lparr>saved := cur s\<rparr>) else (Inl IntegrityError, s))"

definition rollback :: "unit io" where
  "rollback s = (Inr (), s\<lparr>cur := saved s\<rparr>)"

text \<open>An autoincremented primary key.\<close>

definition next_id :: "nat list \<Rightarrow> nat" where
  "next_id ids = Suc (fold max ids 0)"

text \<open>\<^verbatim>\<open>session_obj.query(T).filter_by(...).first()\<close>\<close>

definition query_circuit :: "string \<Rightarrow> circuit option io" where
  "query_circuit k s = (Inr (find (\<lambda>c. circuit_key c = k) (circuits (cur s))), s)"

definition query_driver :: "string \<Rightarrow> driver option io" where
  "query_driver c s = (Inr (find (\<lambda>d. driver_code d = c) (drivers (cur s))), s)"

definition query_team :: "string \<Rightarrow> team option io" where
  "query_team k s = (Inr (find (\<lambda>t. team_key t = k) (teams (cur s))), s)"

definition query_race :: "int \<Rightarrow> string \<Rightarrow> race option io" where
  "query_race y n s =
     (Inr (find (\<lambda>r. race_year r = y \<and> race_name r = n) (races (cur s))), s)"

text \<open>
  A lookup with a cell as the value compared: only a string equals a stored code or
  name.
\<close>

definition query_driver_cell :: "pyval \<Rightarrow> driver option io" where
  "query_driver_cell v s =
     (case v of
        PyStr c \<Rightarrow> (Inr (find (\<lambda>d. driver_code d = c) (drivers (cur s))), s)
      | _ \<Rightarrow> (Inr None, s))"

definition query_team_by_name :: "pyval \<Rightarrow> team option io" where
  "query_team_by_name v s =
     (case v of
        PyStr n \<Rightarrow> (Inr (find (\<lambda>t. team_name t = n) (teams (cur s))), s)
      | _ \<Rightarrow> (Inr None, s))"

text \<open>\<^verbatim>\<open>session_obj.add(obj)\<close>, one function for each table.\<close>

definition add_circuit :: "circuit \<Rightarrow> circuit io" where
  "add_circuit c s =
     (let c' = c\<lparr>circuit_pk := next_id (map circuit_pk (circuits (cur s)))\<rparr>
      in (Inr c', s\<lparr>cur := (cur s)\<lparr>circuits := circuits (cur s) @ [c']\<rparr>\<rparr>))"

definition add_driver :: "driver \<Rightarrow> driver io" where
  "add_driver d s =
     (let d' = d\<lparr>driver_pk := next_id (map driver_pk (drivers (cur s)))\<rparr>
      in (Inr d', s\<lparr>cur := (cur s)\<lparr>drivers := drivers (cur s) @ [d']\<rparr>\<rparr>))"

definition add_team :: "team \<Rightarrow> team io" where
  "add_team t s =
     (let t' = t\<lparr>team_pk := next_id (map team_pk (teams (cur s)))\<rparr>
      in (Inr t', s\<lparr>cur := (cur s)\<lparr>teams := teams (cur s) @ [t']\<rparr>\<rparr>))"

definition add_race :: "race \<Rightarrow> race io" where
  "add_race r s =
     (let r' = r\<lparr>race_pk := next_id (map race_pk (races (cur s)))\<rparr>
      in (Inr r', s\<lparr>cur := (cur s)\<lparr>races := races (cur s) @ [r']\<rparr>\<rparr>))"

definition add_qualifying_result :: "qualifying_result \<Rightarrow> unit io" where
  "add_qualifying_result q s =
     (Inr (), s\<lparr>cur := (cur s)\<lparr>qualifying_results := qualifying_results (cur s) @ [q]\<rparr>\<rparr>)"

definition add_race_result :: "race_result \<Rightarrow> unit io" where
  "add_race_result r s =
     (Inr (), s\<lparr>cur := (cur s)\<lparr>race_results := race_results (cur s) @ [r]\<rparr>\<rparr>)"

definition add_lap_time :: "lap_time \<Rightarrow> unit io" where
  "add_lap_time l s =
     (Inr (), s\<lparr>cur := (cur s)\<lparr>lap_times := lap_times (cur s) @ [l]\<rparr>\<rparr>)"

definition add_pit_stop :: "pit_stop \<Rightarrow> unit io" where
  "add_pit_stop p s =
     (Inr (), s\<lparr>cur := (cur s)\<lparr>pit_stops := pit_stops (cur s) @ [p]\<rparr>\<rparr>)"

definition add_weather :: "weather_entry \<Rightarrow> unit io" where
  "add_weather w s =
     (Inr (), s\<lparr>cur := (cur s)\<lparr>weather_rows := weather_rows (cur s) @ [w]\<rparr>\<rparr>)"

section \<open>Entity resolution\<close>

text \<open>
  \<^verbatim>\<open>get_or_create_circuit(session_obj, event)\<close>: the circuit with the key derived from
  the event's name, created and committed when the lookup finds none.
\<close>

definition get_or_create_circuit :: "pyrt \<Rightarrow> row \<Rightarrow> circuit io" where
  "get_or_create_circuit rt event =
     bind (lift (getitem event ''EventName'')) (\<lambda>name.
     bind (query_circuit (circuit_key_of (py_str rt name))) (\<lambda>found.
       case found of
         Some c \<Rightarrow> ret c
       | None \<Rightarrow>
           bind (add_circuit
                   \<lparr>circuit_pk = 0,
                    circuit_key = circuit_key_of (py_str rt name),
                    circuit_name = py_str rt name,
                    circuit_location =
                      py_str rt (row_get_default event ''Location'' (PyStr ''Unknown'')),
                    circuit_country =
                      py_str rt (row_get_default event ''Country'' (PyStr ''Unknown''))\<rparr>) (\<lambda>c.
           bind commit (\<lambda>_. ret c))))"

text \<open>
  \<^verbatim>\<open>
  try:
      driver_number = int(driver_info.get('DriverNumber', 0)) if pd.notna(driver_info.get('DriverNumber')) else None
  except (ValueError, TypeError):
      driver_number = None
  \<close>
\<close>

definition driver_number_of :: "pyrt \<Rightarrow> row \<Rightarrow> exn + int option" where
  "driver_number_of rt driver_info =
     (case (if pd_notna (row_get driver_info ''DriverNumber'')
            then sbind (py_int rt (row_get_default driver_info ''DriverNumber'' (PyInt 0)))
                   (\<lambda>n. Inr (Some n))
            else Inr None) of
        Inl ValueError \<Rightarrow> Inr None
      | Inl TypeError \<Rightarrow> Inr None
      | r \<Rightarrow> r)"

text \<open>
  \<^verbatim>\<open>get_or_create_driver(session_obj, driver_abbr, driver_info=None)\<close>: \<^verbatim>\<open>None\<close> for a
  missing or empty abbreviation; the driver with the stripped code when there is one; a
  new driver, committed, when there is none and a descriptor is given.
\<close>

definition get_or_create_driver :: "pyrt \<Rightarrow> pyval \<Rightarrow> row option \<Rightarrow> driver option io" where
  "get_or_create_driver rt driver_abbr driver_info =
     (if pd_isna driver_abbr \<or> \<not> py_bool driver_abbr then ret None
      else
        bind (query_driver (py_strip (py_str rt driver_abbr))) (\<lambda>found.
          case (found, driver_info) of
            (None, Some info) \<Rightarrow>
              bind (lift (driver_number_of rt info)) (\<lambda>num.
              bind (add_driver
                      \<lparr>driver_pk = 0,
                       driver_number = num,
                       driver_code = py_strip (py_str rt driver_abbr),
                       first_name = py_str rt (row_get_default info ''FirstName'' (PyStr [])),
                       last_name = py_str rt (row_get_default info ''LastName'' (PyStr [])),
                       broadcast_name =
                         py_str rt (row_get_default info ''BroadcastName''
                           (PyStr (py_strip (py_str rt driver_abbr)))),
                       driver_nationality =
                         py_str rt (row_get_default info ''CountryCode'' (PyStr ''Unknown''))\<rparr>)
                (\<lambda>d.
              bind commit (\<lambda>_. ret (Some d))))
          | _ \<Rightarrow> ret found))"

text \<open>
  \<^verbatim>\<open>get_or_create_team(session_obj, team_name)\<close>: \<^verbatim>\<open>None\<close> for a missing or empty name;
  the team with the key of the stripped name, created and committed when there is none.
\<close>

definition get_or_create_team :: "pyrt \<Rightarrow> pyval \<Rightarrow> team option io" where
  "get_or_create_team rt name =
     (if pd_isna name \<or> \<not> py_bool name then ret None
      else
        bind (query_team (team_key_of (py_strip (py_str rt name)))) (\<lambda>found.
          case found of
            Some t \<Rightarrow> ret (Some t)
          | None \<Rightarrow>
              bind (add_team
                      \<lparr>team_pk = 0,
                       team_key = team_key_of (py_strip (py_str rt name)),
                       team_name = py_strip (py_str rt name)\<rparr>) (\<lambda>t.
              bind commit (\<lambda>_. ret (Some t)))))"

section \<open>The sub-loaders of a session\<close>

text \<open>
  What the provider hands over for a session once loaded: the table of results, the
  table of laps and the weather series, which may be absent.
\<close>

record f1session =
  results :: "row list"
  laps :: "row list"
  weather :: "row list option"

text \<open>What a loader prints when it ends.\<close>

datatype report = Loaded nat | Failed exn | NoWeatherData | Skipped | Succeeded

text \<open>
  \<^verbatim>\<open>
  QualifyingResult(
      race_id=race_entry.id,
      driver_id=driver.id,
      position=int(row['Position']) if pd.notna(row['Position']) else None,
      q1_time=convert_timedelta_to_seconds(row.get('Q1')),
      q2_time=convert_timedelta_to_seconds(row.get('Q2')),
      q3_time=convert_timedelta_to_seconds(row.get('Q3')))
  \<close>
\<close>

definition qualifying_result_of :: "pyrt \<Rightarrow> race \<Rightarrow> driver \<Rightarrow> row \<Rightarrow> exn + qualifying_result" where
  "qualifying_result_of rt race_entry d r =
     sbind (int_if_notna rt r ''Position'') (\<lambda>pos.
     sbind (convert_timedelta_to_seconds (Scalar (row_get r ''Q1''))) (\<lambda>q1.
     sbind (convert_timedelta_to_seconds (Scalar (row_get r ''Q2''))) (\<lambda>q2.
     sbind (convert_timedelta_to_seconds (Scalar (row_get r ''Q3''))) (\<lambda>q3.
       Inr \<lparr>qr_race_id = race_pk race_entry,
            qr_driver_id = driver_pk d,
            qr_position = pos,
            q1_time = q1,
            q2_time = q2,
            q3_time = q3\<rparr>))))"

text \<open>
  One pass of the loop of \<^verbatim>\<open>load_qualifying_results\<close>: the driver is looked up by the
  abbreviation of the row, and the row is passed over when there is none.
\<close>

definition load_qualifying_row :: "pyrt \<Rightarrow> race \<Rightarrow> row \<Rightarrow> nat io" where
  "load_qualifying_row rt race_entry r =
     bind (lift (getitem r ''Abbreviation'')) (\<lambda>abbr.
     bind (query_driver_cell abbr) (\<lambda>found.
       case found of
         None \<Rightarrow> ret 0
       | Some d \<Rightarrow>
           bind (lift (qualifying_result_of rt race_entry d r)) (\<lambda>quali_result.
           bind (add_qualifying_result quali_result) (\<lambda>_. ret 1))))"

definition load_qualifying_results :: "pyrt \<Rightarrow> race \<Rightarrow> f1session \<Rightarrow> report io" where
  "load_qualifying_results rt race_entry quali_session =
     try_except
       (bind (for_each (load_qualifying_row rt race_entry) (results quali_session)) (\<lambda>_.
        bind commit (\<lambda>_. ret (Loaded (length (results quali_session))))))
       (\<lambda>e. bind rollback (\<lambda>_. ret (Failed e)))"

text \<open>
  \<^verbatim>\<open>points=float(row['Points']) if pd.notna(row['Points']) else 0.0\<close>
\<close>

definition points_of :: "pyrt \<Rightarrow> row \<Rightarrow> exn + pyfloat" where
  "points_of rt r =
     sbind (getitem r ''Points'') (\<lambda>p.
       if pd_notna p then py_float rt p else Inr (Finite 0))"

text \<open>
  \<^verbatim>\<open>
  RaceResult(
      race_id=race_entry.id,
      driver_id=driver.id,
      team_id=team.id if team else None,
      grid_position=int(row['GridPosition']) if pd.notna(row['GridPosition']) else None,
      final_position=int(row['Position']) if pd.notna(row['Position']) else None,
      points=float(row['Points']) if pd.notna(row['Points']) else 0.0,
      status=str(row.get('Status', 'Unknown')))
  \<close>
\<close>

definition race_result_of ::
  "pyrt \<Rightarrow> race \<Rightarrow> driver \<Rightarrow> team option \<Rightarrow> row \<Rightarrow> exn + race_result" where
  "race_result_of rt race_entry d team r =
     sbind (int_if_notna rt r ''GridPosition'') (\<lambda>grid.
     sbind (int_if_notna rt r ''Position'') (\<lambda>pos.
     sbind (points_of rt r) (\<lambda>pts.
       Inr \<lparr>rr_race_id = race_pk race_entry,
            rr_driver_id = driver_pk d,
            rr_team_id = map_option team_pk team,
            grid_position = grid,
            final_position = pos,
            points = Some pts,
            status = py_str rt (row_get_default r ''Status'' (PyStr ''Unknown''))\<rparr>)))"

text \<open>One pass of the loop of \<^verbatim>\<open>load_race_results\<close>.\<close>

definition load_race_result_row :: "pyrt \<Rightarrow> race \<Rightarrow> row \<Rightarrow> nat io" where
  "load_race_result_row rt race_entry r =
     bind (lift (getitem r ''Abbreviation'')) (\<lambda>abbr.
     bind (query_driver_cell abbr) (\<lambda>found.
       case found of
         None \<Rightarrow> ret 0
       | Some d \<Rightarrow>
           bind (query_team_by_name (row_get r ''TeamName'')) (\<lambda>team.
           bind (lift (race_result_of rt race_entry d team r)) (\<lambda>race_result.
           bind (add_race_result race_result) (\<lambda>_. ret 1)))))"

definition load_race_results :: "pyrt \<Rightarrow> race \<Rightarrow> f1session \<Rightarrow> report io" where
  "load_race_results rt race_entry race_session =
     try_except
       (bind (for_each (load_race_result_row rt race_entry) (results race_session)) (\<lambda>_.
        bind commit (\<lambda>_. ret (Loaded (length (results race_session))))))
       (\<lambda>e. bind rollback (\<lambda>_. ret (Failed e)))"

text \<open>
  \<^verbatim>\<open>race_session.laps.pick_driver(driver_abbr)\<close>: the laps whose \<^verbatim>\<open>Driver\<close> is the
  abbreviation.
\<close>

definition pick_driver :: "row list \<Rightarrow> pyval \<Rightarrow> exn + row list" where
  "pick_driver lap_rows abbr =
     sbind (column lap_rows ''Driver'') (\<lambda>col.
       Inr (map snd (filter (\<lambda>(v, l). v = abbr) (zip col lap_rows))))"

text \<open>
  \<^verbatim>\<open>tyre_life=int(lap['TyreLife']) if pd.notna(lap.get('TyreLife')) else None\<close>
\<close>

definition tyre_life_of :: "pyrt \<Rightarrow> row \<Rightarrow> exn + int option" where
  "tyre_life_of rt lap =
     (if pd_notna (row_get lap ''TyreLife'')
      then sbind (getitem lap ''TyreLife'') (\<lambda>v. sbind (py_int rt v) (\<lambda>n. Inr (Some n)))
      else Inr None)"

text \<open>
  \<^verbatim>\<open>
  LapTime(
      race_id=race_entry.id,
      driver_id=driver.id,
      lap_number=int(lap['LapNumber']) if pd.notna(lap['LapNumber']) else None,
      lap_time=convert_timedelta_to_seconds(lap.get('LapTime')),
      compound=str(lap.get('Compound')) if pd.notna(lap.get('Compound')) else None,
      tyre_life=int(lap['TyreLife']) if pd.notna(lap.get('TyreLife')) else None)
  \<close>
\<close>

definition lap_time_of :: "pyrt \<Rightarrow> race \<Rightarrow> driver \<Rightarrow> row \<Rightarrow> exn + lap_time" where
  "lap_time_of rt race_entry d lap =
     sbind (int_if_notna rt lap ''LapNumber'') (\<lambda>num.
     sbind (convert_timedelta_to_seconds (Scalar (row_get lap ''LapTime''))) (\<lambda>t.
     sbind (tyre_life_of rt lap) (\<lambda>life.
       Inr \<lparr>lt_race_id = race_pk race_entry,
            lt_driver_id = driver_pk d,
            lt_lap_number = num,
            lt_lap_time = t,
            lt_compound = str_if_notna rt lap ''Compound'',
            tyre_life = life\<rparr>)))"

text \<open>The inner loop of \<^verbatim>\<open>load_lap_times_sample\<close>: one lap of a driver.\<close>

definition load_lap_row :: "pyrt \<Rightarrow> race \<Rightarrow> driver \<Rightarrow> row \<Rightarrow> nat io" where
  "load_lap_row rt race_entry d lap =
     bind (lift (lap_time_of rt race_entry d lap)) (\<lambda>lap_time_entry.
     bind (add_lap_time lap_time_entry) (\<lambda>_. ret 1))"

text \<open>
  The outer loop: one driver of the results, looked up once and passed over when there
  is none.
\<close>

definition load_driver_laps :: "pyrt \<Rightarrow> race \<Rightarrow> f1session \<Rightarrow> pyval \<Rightarrow> nat io" where
  "load_driver_laps rt race_entry race_session driver_abbr =
     bind (query_driver_cell driver_abbr) (\<lambda>found.
       case found of
         None \<Rightarrow> ret 0
       | Some d \<Rightarrow>
           bind (lift (pick_driver (laps race_session) driver_abbr)) (\<lambda>driver_laps.
           for_each (load_lap_row rt race_entry d) driver_laps))"

definition load_lap_times_sample :: "pyrt \<Rightarrow> race \<Rightarrow> f1session \<Rightarrow> report io" where
  "load_lap_times_sample rt race_entry race_session =
     try_except
       (bind (lift (column (results race_session) ''Abbreviation'')) (\<lambda>all_drivers.
        bind (for_each (load_driver_laps rt race_entry race_session) all_drivers) (\<lambda>lap_count.
        bind commit (\<lambda>_. ret (Loaded lap_count)))))
       (\<lambda>e. bind rollback (\<lambda>_. ret (Failed e)))"

text \<open>
  \<^verbatim>\<open>
  PitStop(
      race_id=race_entry.id,
      driver_id=driver.id,
      lap_number=int(lap['LapNumber']) if pd.notna(lap['LapNumber']) else None,
      compound_after=str(lap.get('Compound')) if pd.notna(lap.get('Compound')) else None)
  \<close>
  The duration of the stop is not among the arguments: the column stays null.
\<close>

definition pit_stop_of :: "pyrt \<Rightarrow> race \<Rightarrow> driver \<Rightarrow> row \<Rightarrow> exn + pit_stop" where
  "pit_stop_of rt race_entry d lap =
     sbind (int_if_notna rt lap ''LapNumber'') (\<lambda>num.
       Inr \<lparr>ps_race_id = race_pk race_entry,
            ps_driver_id = driver_pk d,
            ps_lap_number = num,
            pit_duration = None,
            compound_after = str_if_notna rt lap ''Compound''\<rparr>)"

text \<open>One pass of the loop of \<^verbatim>\<open>load_pit_stops\<close>.\<close>

definition load_pit_stop_row :: "pyrt \<Rightarrow> race \<Rightarrow> row \<Rightarrow> nat io" where
  "load_pit_stop_row rt race_entry lap =
     bind (lift (getitem lap ''Driver'')) (\<lambda>abbr.
     bind (query_driver_cell abbr) (\<lambda>found.
       case found of
         None \<Rightarrow> ret 0
       | Some d \<Rightarrow>
           bind (lift (pit_stop_of rt race_entry d lap)) (\<lambda>pit_stop.
           bind (add_pit_stop pit_stop) (\<lambda>_. ret 1))))"

text \<open>
  \<^verbatim>\<open>pit_stops = race_session.laps[race_session.laps['PitOutTime'].notna()]\<close>
\<close>

definition pit_out_laps :: "row list \<Rightarrow> exn + row list" where
  "pit_out_laps lap_rows =
     sbind (column lap_rows ''PitOutTime'') (\<lambda>col.
       Inr (map snd (filter (\<lambda>(v, l). pd_notna v) (zip col lap_rows))))"

definition load_pit_stops :: "pyrt \<Rightarrow> race \<Rightarrow> f1session \<Rightarrow> report io" where
  "load_pit_stops rt race_entry race_session =
     try_except
       (bind (lift (pit_out_laps (laps race_session))) (\<lambda>pit_stops.
        bind (for_each (load_pit_stop_row rt race_entry) pit_stops) (\<lambda>pit_count.
        bind commit (\<lambda>_. ret (Loaded pit_count)))))
       (\<lambda>e. bind rollback (\<lambda>_. ret (Failed e)))"

text \<open>\<^verbatim>\<open>weather_data.iloc[::n]\<close>: every n-th row, from the first.\<close>

fun iloc_step :: "nat \<Rightarrow> 'a list \<Rightarrow> 'a list" where
  "iloc_step n [] = []"
| "iloc_step n (x # xs) = x # iloc_step n (drop (n - 1) xs)"

text \<open>
  \<^verbatim>\<open>rainfall=bool(row.get('Rainfall', False)) if pd.notna(row.get('Rainfall')) else False\<close>
\<close>

definition rainfall_of :: "row \<Rightarrow> bool" where
  "rainfall_of r =
     (if pd_notna (row_get r ''Rainfall'')
      then py_bool (row_get_default r ''Rainfall'' (PyBool False)) else False)"

text \<open>
  \<^verbatim>\<open>
  Weather(
      race_id=race_entry.id,
      air_temp=float(row['AirTemp']) if pd.notna(row.get('AirTemp')) else None,
      track_temp=float(row['TrackTemp']) if pd.notna(row.get('TrackTemp')) else None,
      humidity=float(row['Humidity']) if pd.notna(row.get('Humidity')) else None,
      pressure=float(row['Pressure']) if pd.notna(row.get('Pressure')) else None,
      rainfall=bool(row.get('Rainfall', False)) if pd.notna(row.get('Rainfall')) else False)
  \<close>
\<close>

definition weather_entry_of :: "pyrt \<Rightarrow> race \<Rightarrow> row \<Rightarrow> exn + weather_entry" where
  "weather_entry_of rt race_entry r =
     sbind (float_if_notna rt r ''AirTemp'') (\<lambda>air.
     sbind (float_if_notna rt r ''TrackTemp'') (\<lambda>track.
     sbind (float_if_notna rt r ''Humidity'') (\<lambda>hum.
     sbind (float_if_notna rt r ''Pressure'') (\<lambda>pres.
       Inr \<lparr>w_race_id = race_pk race_entry,
            air_temp = air,
            track_temp = track,
            humidity = hum,
            pressure = pres,
            rainfall = rainfall_of r\<rparr>))))"

text \<open>One pass of the loop of \<^verbatim>\<open>load_weather_data\<close>.\<close>

definition load_weather_row :: "pyrt \<Rightarrow> race \<Rightarrow> row \<Rightarrow> nat io" where
  "load_weather_row rt race_entry r =
     bind (lift (weather_entry_of rt race_entry r)) (\<lambda>weather_entry.
     bind (add_weather weather_entry) (\<lambda>_. ret 1))"

text \<open>
  \<^verbatim>\<open>load_weather_data\<close>: nothing is done when the session has no weather series;
  otherwise every tenth sample is stored.
\<close>

definition load_weather_data :: "pyrt \<Rightarrow> race \<Rightarrow> f1session \<Rightarrow> report io" where
  "load_weather_data rt race_entry race_session =
     try_except
       (case weather race_session of
          None \<Rightarrow> ret NoWeatherData
        | Some weather_data \<Rightarrow>
            bind (for_each (load_weather_row rt race_entry) (iloc_step 10 weather_data))
              (\<lambda>weather_count.
            bind commit (\<lambda>_. ret (Loaded weather_count))))
       (\<lambda>e. bind rollback (\<lambda>_. ret (Failed e)))"

section \<open>The race weekend\<close>

text \<open>
  The provider: the schedule of a year, and the loaded session of a year, an event and
  a session type (\<^verbatim>\<open>fastf1.get_session\<close> followed by \<^verbatim>\<open>load\<close>); both may raise.
\<close>

record provider =
  get_event_schedule :: "int \<Rightarrow> exn + row list"
  get_session :: "int \<Rightarrow> string \<Rightarrow> string \<Rightarrow> exn + f1session"

text \<open>
  \<^verbatim>\<open>event = schedule[schedule['EventName'] == race_name].iloc[0]\<close>
\<close>

definition find_event :: "row list \<Rightarrow> string \<Rightarrow> exn + row" where
  "find_event schedule name =
     sbind (column schedule ''EventName'') (\<lambda>col.
       case map snd (filter (\<lambda>(v, r). v = PyStr name) (zip col schedule)) of
         [] \<Rightarrow> Inl IndexError
       | event # _ \<Rightarrow> Inr event)"

text \<open>
  \<^verbatim>\<open>race_date=event['EventDate'].date() if pd.notna(event['EventDate']) else None\<close>
\<close>

definition race_date_of :: "row \<Rightarrow> exn + int option" where
  "race_date_of event =
     sbind (getitem event ''EventDate'') (\<lambda>v.
       if pd_notna v then sbind (py_date v) (\<lambda>d. Inr (Some d)) else Inr None)"

text \<open>One pass of the loop over the results that resolves drivers and teams.\<close>

definition resolve_driver_and_team :: "pyrt \<Rightarrow> row \<Rightarrow> nat io" where
  "resolve_driver_and_team rt r =
     bind (lift (getitem r ''Abbreviation'')) (\<lambda>abbr.
     bind (get_or_create_driver rt abbr (Some r)) (\<lambda>driver.
     bind (get_or_create_team rt (row_get r ''TeamName'')) (\<lambda>team. ret 0)))"

text \<open>
  The part of \<^verbatim>\<open>load_race_weekend\<close> after the existence check: the two sessions are
  loaded, the race is created and committed, the drivers and teams of the results are
  resolved and the five sub-loaders run.
\<close>

definition load_new_weekend ::
  "pyrt \<Rightarrow> provider \<Rightarrow> int \<Rightarrow> string \<Rightarrow> row \<Rightarrow> circuit \<Rightarrow> report io" where
  "load_new_weekend rt fastf1 year name event circuit =
     bind (lift (get_session fastf1 year name ''Q'')) (\<lambda>quali.
     bind (lift (get_session fastf1 year name ''R'')) (\<lambda>race_session.
     bind (lift (sbind (getitem event ''RoundNumber'') (py_int rt))) (\<lambda>round_no.
     bind (lift (race_date_of event)) (\<lambda>date.
     bind (add_race
             \<lparr>race_pk = 0,
              race_year = year,
              round_number = round_no,
              race_name = name,
              race_circuit_id = circuit_pk circuit,
              race_date = date\<rparr>) (\<lambda>race_entry.
     bind commit (\<lambda>_.
     bind (for_each (resolve_driver_and_team rt) (results race_session)) (\<lambda>_.
     bind (load_qualifying_results rt race_entry quali) (\<lambda>_.
     bind (load_race_results rt race_entry race_session) (\<lambda>_.
     bind (load_lap_times_sample rt race_entry race_session) (\<lambda>_.
     bind (load_pit_stops rt race_entry race_session) (\<lambda>_.
     bind (load_weather_data rt race_entry race_session) (\<lambda>_.
     ret Succeeded))))))))))))"

text \<open>
  \<^verbatim>\<open>load_race_weekend(year, race_name, session_obj)\<close>: the circuit is resolved, then the
  race is looked up by year and name and the load stops when it is there. Whatever is
  raised is caught, and the session rolled back.
\<close>

definition load_race_weekend :: "pyrt \<Rightarrow> provider \<Rightarrow> int \<Rightarrow> string \<Rightarrow> report io" where
  "load_race_weekend rt fastf1 year name =
     try_except
       (bind (lift (get_event_schedule fastf1 year)) (\<lambda>schedule.
        bind (lift (find_event schedule name)) (\<lambda>event.
        bind (get_or_create_circuit rt event) (\<lambda>circuit.
        bind (query_race year name) (\<lambda>existing_race.
          case existing_race of
            Some _ \<Rightarrow> ret Skipped
          | None \<Rightarrow> load_new_weekend rt fastf1 year name event circuit)))))
       (\<lambda>e. bind rollback (\<lambda>_. ret (Failed e)))"

section \<open>Sessions, repeated calls and example data\<close>

text \<open>
  A session is consistent when no transaction is open and the committed store
  satisfies the constraints of the schema: the state between two calls of the module.
\<close>

definition consistent :: "dbsession \<Rightarrow> bool" where
  "consistent s = (cur s = saved s \<and> integrity_ok (saved s))"

text \<open>The same call made \<open>n\<close> times in a row, with the values it returns.\<close>

fun repeat_io :: "nat \<Rightarrow> 'a io \<Rightarrow> 'a list io" where
  "repeat_io 0 m s = (Inr [], s)"
| "repeat_io (Suc n) m s =
     (case m s of
        (Inl e, s') \<Rightarrow> (Inl e, s')
      | (Inr x, s') \<Rightarrow>
          (case repeat_io n m s' of
             (Inl e, s'') \<Rightarrow> (Inl e, s'')
           | (Inr xs, s'') \<Rightarrow> (Inr (x # xs), s'')))"

text \<open>
  The examples below hand the module strings where it expects text and numbers where it
  expects numbers, or text that is no number; the runtime they are evaluated with
  renders nothing and parses nothing.
\<close>

definition example_rt :: pyrt where
  "example_rt = \<lparr>str_repr = (\<lambda>v. []), int_parse = (\<lambda>s. None), float_parse = (\<lambda>s. None)\<rparr>"

definition empty_db :: db where
  "empty_db =
     \<lparr>circuits = [], drivers = [], teams = [], races = [], qualifying_results = [],
      race_results = [], lap_times = [], pit_stops = [], weather_rows = []\<rparr>"

definition session_on :: "db \<Rightarrow> dbsession" where
  "session_on d = \<lparr>cur = d, saved = d\<rparr>"

text \<open>A store with one driver, who carries the number 22.\<close>

definition button_db :: db where
  "button_db = empty_db\<lparr>drivers :=
     [\<lparr>driver_pk = 1, driver_number = Some 22, driver_code = ''BUT'', first_name = ''Jenson'',
       last_name = ''Button'', broadcast_name = ''J BUTTON'', driver_nationality = ''GBR''\<rparr>]\<rparr>"

text \<open>The descriptor of the driver of the store above, as a row of the results.\<close>

definition button_info :: row where
  "button_info = [(''DriverNumber'', PyInt 22), (''FirstName'', PyStr ''Jenson''),
     (''LastName'', PyStr ''Button''), (''BroadcastName'', PyStr ''J BUTTON''),
     (''CountryCode'', PyStr ''GBR''), (''Abbreviation'', PyStr ''BUT'')]"

text \<open>The descriptor of a driver, as a row of the results, and the driver made from it.\<close>

definition leclerc_info :: row where
  "leclerc_info = [(''DriverNumber'', PyInt 16), (''FirstName'', PyStr ''Charles''),
     (''LastName'', PyStr ''Leclerc''), (''BroadcastName'', PyStr ''C LECLERC''),
     (''CountryCode'', PyStr ''MON''), (''TeamName'', PyStr ''Ferrari''),
     (''Abbreviation'', PyStr ''LEC'')]"

definition leclerc :: driver where
  "leclerc = \<lparr>driver_pk = 1, driver_number = Some 16, driver_code = ''LEC'',
     first_name = ''Charles'', last_name = ''Leclerc'', broadcast_name = ''C LECLERC'',
     driver_nationality = ''MON''\<rparr>"

definition appends ::
  "(('a list \<Rightarrow> 'a list) \<Rightarrow> db \<Rightarrow> db) \<Rightarrow> (driver list \<Rightarrow> 'a \<Rightarrow> bool) \<Rightarrow> dbsession \<Rightarrow> dbsession \<Rightarrow> bool" where
  "appends upd P s s' =
     (saved s' = saved s
      \<and> (\<exists>new. cur s' = upd (\<lambda>rows. rows @ new) (cur s) \<and> list_all (P (drivers (cur s))) new))"

definition table_upd :: "(('a list \<Rightarrow> 'a list) \<Rightarrow> db \<Rightarrow> db) \<Rightarrow> bool" where
  "table_upd upd =
     ((\<forall>f g d. upd f (upd g d) = upd (\<lambda>rows. f (g rows)) d)
      \<and> (\<forall>d. upd (\<lambda>rows. rows) d = d)
      \<and> (\<forall>g d. drivers (upd g d) = drivers d))"

definition loader_ok ::
  "(('a list \<Rightarrow> 'a list) \<Rightarrow> db \<Rightarrow> db) \<Rightarrow> (driver list \<Rightarrow> 'a \<Rightarrow> bool) \<Rightarrow> dbsession \<Rightarrow> report \<Rightarrow> dbsession \<Rightarrow> bool" where
  "loader_ok upd P s rep s' =
     (case rep of
        Failed e \<Rightarrow> s' = s\<lparr>cur := saved s\<rparr>
      | Loaded n \<Rightarrow>
          (\<exists>new. cur s' = upd (\<lambda>rows. rows @ new) (cur s)
             \<and> list_all (P (drivers (cur s))) new \<and> saved s' = cur s')
      | NoWeatherData \<Rightarrow> s' = s
      | _ \<Rightarrow> False)"

definition built_qualifying :: "pyrt \<Rightarrow> race \<Rightarrow> row list \<Rightarrow> driver list \<Rightarrow> qualifying_result \<Rightarrow> bool" where
  "built_qualifying rt race_entry rows ds q =
     (\<exists>r \<in> set rows. \<exists>d \<in> set ds.
        getitem r ''Abbreviation'' = Inr (PyStr (driver_code d))
        \<and> qualifying_result_of rt race_entry d r = Inr q)"

definition built_race_result :: "pyrt \<Rightarrow> race \<Rightarrow> row list \<Rightarrow> driver list \<Rightarrow> race_result \<Rightarrow> bool" where
  "built_race_result rt race_entry rows ds x =
     (\<exists>r \<in> set rows. \<exists>d \<in> set ds. \<exists>t.
        getitem r ''Abbreviation'' = Inr (PyStr (driver_code d))
        \<and> race_result_of rt race_entry d t r = Inr x)"

definition built_lap_time :: "pyrt \<Rightarrow> race \<Rightarrow> row list \<Rightarrow> driver list \<Rightarrow> lap_time \<Rightarrow> bool" where
  "built_lap_time rt race_entry rows ds x =
     (\<exists>lap \<in> set rows. \<exists>d \<in> set ds.
        getitem lap ''Driver'' = Inr (PyStr (driver_code d))
        \<and> lap_time_of rt race_entry d lap = Inr x)"

definition built_pit_stop :: "pyrt \<Rightarrow> race \<Rightarrow> row list \<Rightarrow> driver list \<Rightarrow> pit_stop \<Rightarrow> bool" where
  "built_pit_stop rt race_entry rows ds x =
     (\<exists>lap \<in> set rows. \<exists>d \<in> set ds.
        getitem lap ''Driver'' = Inr (PyStr (driver_code d))
        \<and> pit_stop_of rt race_entry d lap = Inr x)"

definition built_weather :: "pyrt \<Rightarrow> race \<Rightarrow> row list \<Rightarrow> driver list \<Rightarrow> weather_entry \<Rightarrow> bool" where
  "built_weather rt race_entry rows ds x =
     (\<exists>r \<in> set rows. weather_entry_of rt race_entry r = Inr x)"

definition sampled :: "f1session \<Rightarrow> row list" where
  "sampled race_session = (case weather race_session of None \<Rightarrow> [] | Some wd \<Rightarrow> iloc_step 10 wd)"

text \<open>Example data: a race, a store with one driver, and the sessions of a weekend.\<close>

definition race1 :: race where
  "race1 = \<lparr>race_pk = 1, race_year = 2024, round_number = 8, race_name = ''Monaco Grand Prix'',
     race_circuit_id = 1, race_date = None\<rparr>"

definition bad_weather :: f1session where
  "bad_weather = \<lparr>results = [], laps = [], weather = Some [[(''AirTemp'', PyStr ''n/a'')]]\<rparr>"

definition leclerc_db :: db where
  "leclerc_db = empty_db\<lparr>drivers := [leclerc]\<rparr>"

definition monaco_quali :: f1session where
  "monaco_quali =
     \<lparr>results =
        [[(''Abbreviation'', PyStr ''LEC''), (''Position'', PyFloat 1),
          (''Q1'', PyTimedelta 71000000000), (''Q2'', PyTimedelta 70000000000), (''Q3'', PyNaT)],
         [(''Abbreviation'', PyStr ''XXX''), (''Position'', PyFloat 2),
          (''Q1'', PyTimedelta 72000000000), (''Q2'', PyNaT), (''Q3'', PyNaT)]],
      laps = [], weather = None\<rparr>"

definition monaco_race :: f1session where
  "monaco_race =
     \<lparr>results =
        [[(''Abbreviation'', PyStr ''LEC''), (''TeamName'', PyStr ''Ferrari''),
          (''GridPosition'', PyFloat 1), (''Position'', PyFloat 1), (''Points'', PyNaN),
          (''Status'', PyStr ''Finished'')]],
      laps =
        [[(''Driver'', PyStr ''LEC''), (''LapNumber'', PyFloat 1),
          (''LapTime'', PyTimedelta 80000000000), (''Compound'', PyStr ''HARD''),
          (''TyreLife'', PyFloat 1), (''PitOutTime'', PyNaT)],
         [(''Driver'', PyStr ''LEC''), (''LapNumber'', PyFloat 2),
          (''LapTime'', PyNaT), (''Compound'', PyStr ''MEDIUM''),
          (''TyreLife'', PyNaN), (''PitOutTime'', PyTimedelta 3600000000000)]],
      weather = Some [[(''AirTemp'', PyStr ''n/a'')]]\<rparr>"

definition db1 :: db where
  "db1 = leclerc_db\<lparr>qualifying_results :=
     [\<lparr>qr_race_id = 1, qr_driver_id = 1, qr_position = Some 1,
       q1_time = Some 71, q2_time = Some 70, q3_time = None\<rparr>]\<rparr>"

definition db2 :: db where
  "db2 = db1\<lparr>race_results :=
     [\<lparr>rr_race_id = 1, rr_driver_id = 1, rr_team_id = None, grid_position = Some 1,
       final_position = Some 1, points = Some (Finite 0), status = ''Finished''\<rparr>]\<rparr>"

definition db3 :: db where
  "db3 = db2\<lparr>lap_times :=
     [\<lparr>lt_race_id = 1, lt_driver_id = 1, lt_lap_number = Some 1, lt_lap_time = Some 80,
       lt_compound = Some ''HARD'', tyre_life = Some 1\<rparr>,
      \<lparr>lt_race_id = 1, lt_driver_id = 1, lt_lap_number = Some 2, lt_lap_time = None,
       lt_compound = Some ''MEDIUM'', tyre_life = None\<rparr>]\<rparr>"

definition db4 :: db where
  "db4 = db3\<lparr>pit_stops :=
     [\<lparr>ps_race_id = 1, ps_driver_id = 1, ps_lap_number = Some 2, pit_duration = None,
       compound_after = Some ''MEDIUM''\<rparr>]\<rparr>"

text \<open>What the normalizer makes of a cell: the seconds of a duration, null otherwise.\<close>

definition seconds_of :: "pyval \<Rightarrow> real option" where
  "seconds_of v = (case v of PyTimedelta ns \<Rightarrow> Some (real_of_int ns / 1000000000) | _ \<Rightarrow> None)"

definition unknown_row :: row where
  "unknown_row = [(''Abbreviation'', PyStr ''XXX''), (''Driver'', PyStr ''XXX'')]"

definition leclerc_result :: row where
  "leclerc_result =
     [(''Abbreviation'', PyStr ''LEC''), (''TeamName'', PyStr ''Ferrari''),
      (''GridPosition'', PyFloat 1), (''Position'', PyFloat 1), (''Points'', PyNaN),
      (''Status'', PyStr ''Finished'')]"

text \<open>A qualifying table whose first time is a negative duration.\<close>

definition negative_quali :: f1session where
  "negative_quali =
     \<lparr>results =
        [[(''Abbreviation'', PyStr ''LEC''), (''Position'', PyFloat 1),
          (''Q1'', PyTimedelta (- 1000000000)), (''Q2'', PyNaT), (''Q3'', PyNaT)]],
      laps = [], weather = None\<rparr>"

definition timed_row :: row where
  "timed_row =
     [(''Position'', PyFloat 1), (''Q1'', PyTimedelta 71000000000), (''Q2'', PyNaT),
      (''LapNumber'', PyFloat 1), (''LapTime'', PyTimedelta 80000000000)]"

text \<open>A weather series of 47 samples, the air temperature of sample \<open>i\<close> being \<open>i\<close>.\<close>

definition weather47 :: f1session where
  "weather47 =
     \<lparr>results = [], laps = [],
      weather = Some (map (\<lambda>i. [(''AirTemp'', PyInt (int i))]) [0..<47])\<rparr>"

definition stored47 :: "weather_entry list" where
  "stored47 =
     map (\<lambda>i. \<lparr>w_race_id = 1, air_temp = Some (Finite (real_of_int i)), track_temp = None,
                humidity = None, pressure = None, rainfall = False\<rparr>) [0, 10, 20, 30, 40]"

text \<open>
  Sessions in which a row that loads is followed by a row that raises: a result without
  abbreviation, points and a lap number that are no numbers, and a weather series whose
  eleventh sample has a temperature that is no number.
\<close>

definition broken_quali :: f1session where
  "broken_quali =
     \<lparr>results =
        [[(''Abbreviation'', PyStr ''LEC''), (''Position'', PyFloat 1),
          (''Q1'', PyTimedelta 71000000000), (''Q2'', PyTimedelta 70000000000), (''Q3'', PyNaT)],
         [(''Position'', PyFloat 2)]],
      laps = [], weather = None\<rparr>"

definition broken_race :: f1session where
  "broken_race =
     \<lparr>results =
        [[(''Abbreviation'', PyStr ''LEC''), (''TeamName'', PyStr ''Ferrari''),
          (''GridPosition'', PyFloat 1), (''Position'', PyFloat 1), (''Points'', PyNaN),
          (''Status'', PyStr ''Finished'')],
         [(''Abbreviation'', PyStr ''LEC''), (''TeamName'', PyStr ''Ferrari''),
          (''GridPosition'', PyFloat 2), (''Position'', PyFloat 2), (''Points'', PyStr ''n/a'')]],
      laps =
        [[(''Driver'', PyStr ''LEC''), (''LapNumber'', PyFloat 1),
          (''LapTime'', PyTimedelta 80000000000), (''PitOutTime'', PyTimedelta 3600000000000)],
         [(''Driver'', PyStr ''LEC''), (''LapNumber'', PyStr ''n/a''),
          (''LapTime'', PyNaT), (''PitOutTime'', PyTimedelta 3700000000000)]],
      weather = Some (replicate 10 [(''AirTemp'', PyFloat 21)] @ [[(''AirTemp'', PyStr ''n/a'')]])\<rparr>"

section \<open>The duration normalizer\<close>

lemma convert_scalar:
  "convert_timedelta_to_seconds (Scalar v) =
     Inr (case v of PyTimedelta ns \<Rightarrow> Some (real_of_int ns / 1000000000) | _ \<Rightarrow> None)"
  by (cases v) (simp_all add: convert_timedelta_to_seconds_def)

text \<open>
  Claim C5, as stated: the normalizer never raises, whatever the input. It fails on an
  array-like of two values: the test \<^verbatim>\<open>pd.isna(td)\<close> answers with an array, whose truth
  value is ambiguous, and the ValueError leaves the function, the test standing before
  the \<^verbatim>\<open>try\<close>.
\<close>

theorem convert_timedelta_to_seconds_raises_on_list:
  "convert_timedelta_to_seconds (PyList (PyInt 1) [PyInt 2]) = Inl ValueError"
  by (simp add: convert_timedelta_to_seconds_def)

text \<open>
  Claim C5, amended: on every scalar input the normalizer returns and does not raise;
  it returns the count of seconds for a duration and null for every other scalar (a
  missing value or a value of another type).
\<close>

theorem convert_timedelta_to_seconds_scalar_total:
  "\<exists>r. convert_timedelta_to_seconds (Scalar v) = Inr r
     \<and> r = (case v of PyTimedelta ns \<Rightarrow> Some (real_of_int ns / 1000000000) | _ \<Rightarrow> None)"
  by (simp add: convert_scalar)

section \<open>The natural keys\<close>

lemma py_replace_map: "py_replace old [new] s = map (\<lambda>c. if c = old then new else c) s"
  by (induction s) (simp_all add: py_replace_def)

lemma py_replace_filter: "py_replace old [] s = filter (\<lambda>c. c \<noteq> old) s"
  by (induction s) (simp_all add: py_replace_def)

lemma circuit_key_of_spec: "circuit_key_of name = spec_natural_key name"
  unfolding circuit_key_of_def spec_natural_key_def py_lower_def py_replace_map py_replace_filter
  by (induction name) (auto simp: to_underscore_def)

lemma team_key_of_chars: "team_key_of name = map to_underscore (map lower_char name)"
  unfolding team_key_of_def py_lower_def py_replace_map
  by (induction name) (auto simp: to_underscore_def)

text \<open>
  Claim C7, as stated: both keys are the name lower-cased, with spaces and hyphens
  turned into underscores and apostrophes removed. The team key keeps the apostrophe.
\<close>

theorem team_key_keeps_apostrophe:
  "team_key_of [CHR ''O'', CHR 0x27, CHR ''N'', CHR ''e'', CHR ''i'', CHR ''l'']
     \<noteq> spec_natural_key [CHR ''O'', CHR 0x27, CHR ''N'', CHR ''e'', CHR ''i'', CHR ''l'']"
  by code_simp

text \<open>
  Claim C7, amended: the circuit key is the name lower-cased, with apostrophes removed
  and spaces and hyphens turned into underscores; the team key is the name lower-cased
  with spaces and hyphens turned into underscores; both are functions of the name, and
  the event name "Monaco Grand Prix" gives the circuit key "monaco_grand_prix".
\<close>

theorem natural_keys_derivation:
  "circuit_key_of name = map to_underscore (filter (\<lambda>c. c \<noteq> CHR 0x27) (map lower_char name))
   \<and> team_key_of name = map to_underscore (map lower_char name)
   \<and> circuit_key_of ''Monaco Grand Prix'' = ''monaco_grand_prix''"
proof -
  have "circuit_key_of ''Monaco Grand Prix'' = ''monaco_grand_prix''"
    by code_simp
  then show ?thesis
    using circuit_key_of_spec [of name] team_key_of_chars [of name]
    by (simp add: spec_natural_key_def)
qed

section \<open>Entity resolution is idempotent\<close>

lemmas io_defs = bind_def ret_def raise_def lift_def try_except_def

lemma repeat_io_fix:
  assumes "m s = (Inr x, s')" and "m s' = (Inr x, s')"
  shows "repeat_io (Suc n) m s = (Inr (replicate (Suc n) x), s')"
proof -
  have "repeat_io k m s' = (Inr (replicate k x), s')" for k
    by (induction k) (simp_all add: assms)
  then show ?thesis using assms by simp
qed

lemma next_id_fresh: "next_id ids \<notin> set ids"
proof
  assume "next_id ids \<in> set ids"
  then have "next_id ids \<le> Max (set (0 # ids))"
    by (intro Max_ge) simp_all
  also have "Max (set (0 # ids)) = fold max ids 0"
    by (rule Max.set_eq_fold)
  finally show False by (simp add: next_id_def)
qed

lemma find_append_new:
  "find P xs = None \<Longrightarrow> P x \<Longrightarrow> find P (xs @ [x]) = Some x"
  by (induction xs) (auto split: if_splits)

lemma filter_none: "find P xs = None \<Longrightarrow> filter P xs = []"
  by (induction xs) (auto split: if_splits)

lemma find_distinct_filter:
  "distinct (map f xs) \<Longrightarrow> find (\<lambda>x. f x = k) xs = Some y \<Longrightarrow> filter (\<lambda>x. f x = k) xs = [y]"
proof (induction xs)
  case Nil then show ?case by simp
next
  case (Cons a xs)
  show ?case
  proof (cases "f a = k")
    case True
    with Cons.prems have "y = a" by simp
    moreover have "filter (\<lambda>x. f x = k) xs = []"
    proof -
      have "f x \<noteq> k" if "x \<in> set xs" for x
        using Cons.prems(1) True that by (force simp: image_iff)
      then show ?thesis by (simp add: filter_empty_conv)
    qed
    ultimately show ?thesis using True by simp
  next
    case False
    with Cons show ?thesis by simp
  qed
qed

lemma find_Some_prop: "find P xs = Some x \<Longrightarrow> P x \<and> x \<in> set xs"
  by (induction xs) (auto split: if_splits)

lemma find_None_iff_all: "find P xs = None \<longleftrightarrow> (\<forall>x \<in> set xs. \<not> P x)"
  by (induction xs) auto

lemma circuit_resolution:
  assumes c: "consistent s" and ev: "getitem event ''EventName'' = Inr name"
  shows "\<exists>c s'. get_or_create_circuit rt event s = (Inr c, s')
           \<and> get_or_create_circuit rt event s' = (Inr c, s')
           \<and> consistent s'
           \<and> filter (\<lambda>x. circuit_key x = circuit_key_of (py_str rt name)) (circuits (saved s')) = [c]"
proof (cases "find (\<lambda>x. circuit_key x = circuit_key_of (py_str rt name)) (circuits (cur s))")
  case (Some c0)
  have "get_or_create_circuit rt event s = (Inr c0, s)"
    using Some ev by (simp add: get_or_create_circuit_def io_defs query_circuit_def)
  moreover have "filter (\<lambda>x. circuit_key x = circuit_key_of (py_str rt name)) (circuits (saved s)) = [c0]"
    using c Some find_distinct_filter [of circuit_key "circuits (cur s)"]
    by (simp add: consistent_def integrity_ok_def)
  ultimately show ?thesis using c by blast
next
  case None
  let ?k = "circuit_key_of (py_str rt name)"
  define c1 where "c1 = \<lparr>circuit_pk = next_id (map circuit_pk (circuits (cur s))),
     circuit_key = ?k, circuit_name = py_str rt name,
     circuit_location = py_str rt (row_get_default event ''Location'' (PyStr ''Unknown'')),
     circuit_country = py_str rt (row_get_default event ''Country'' (PyStr ''Unknown''))\<rparr>"
  define d1 where "d1 = (cur s)\<lparr>circuits := circuits (cur s) @ [c1]\<rparr>"
  define s1 where "s1 = \<lparr>cur = d1, saved = d1\<rparr>"
  have fresh: "?k \<notin> set (map circuit_key (circuits (cur s)))"
    using None by (auto simp: find_None_iff_all)
  have ok: "integrity_ok d1"
    using c fresh by (simp add: d1_def consistent_def integrity_ok_def c1_def)
  have first: "get_or_create_circuit rt event s = (Inr c1, s1)"
    using None ev ok
    by (simp add: get_or_create_circuit_def io_defs query_circuit_def add_circuit_def
        commit_def Let_def c1_def [symmetric] d1_def [symmetric] s1_def)
  have found: "find (\<lambda>x. circuit_key x = ?k) (circuits (cur s1)) = Some c1"
    using None by (simp add: s1_def d1_def find_append_new c1_def)
  have second: "get_or_create_circuit rt event s1 = (Inr c1, s1)"
    using found ev by (simp add: get_or_create_circuit_def io_defs query_circuit_def)
  have "filter (\<lambda>x. circuit_key x = ?k) (circuits (saved s1)) = [c1]"
    using filter_none [OF None] by (simp add: s1_def d1_def c1_def)
  moreover have "consistent s1" using ok by (simp add: consistent_def s1_def)
  ultimately show ?thesis using first second by blast
qed

lemma team_resolution:
  assumes c: "consistent s" and na: "\<not> pd_isna name" and tr: "py_bool name"
  shows "\<exists>t s'. get_or_create_team rt name s = (Inr (Some t), s')
           \<and> get_or_create_team rt name s' = (Inr (Some t), s')
           \<and> consistent s'
           \<and> filter (\<lambda>x. team_key x = team_key_of (py_strip (py_str rt name))) (teams (saved s')) = [t]"
proof (cases "find (\<lambda>x. team_key x = team_key_of (py_strip (py_str rt name))) (teams (cur s))")
  case (Some t0)
  have "get_or_create_team rt name s = (Inr (Some t0), s)"
    using Some na tr by (simp add: get_or_create_team_def io_defs query_team_def)
  moreover have "filter (\<lambda>x. team_key x = team_key_of (py_strip (py_str rt name))) (teams (saved s)) = [t0]"
    using c Some find_distinct_filter [of team_key "teams (cur s)"]
    by (simp add: consistent_def integrity_ok_def)
  ultimately show ?thesis using c by blast
next
  case None
  let ?k = "team_key_of (py_strip (py_str rt name))"
  define t1 where "t1 = \<lparr>team_pk = next_id (map team_pk (teams (cur s))),
     team_key = ?k, team_name = py_strip (py_str rt name)\<rparr>"
  define d1 where "d1 = (cur s)\<lparr>teams := teams (cur s) @ [t1]\<rparr>"
  define s1 where "s1 = \<lparr>cur = d1, saved = d1\<rparr>"
  have fresh: "?k \<notin> set (map team_key (teams (cur s)))"
    using None by (auto simp: find_None_iff_all)
  have ok: "integrity_ok d1"
    using c fresh by (simp add: d1_def consistent_def integrity_ok_def t1_def)
  have first: "get_or_create_team rt name s = (Inr (Some t1), s1)"
    using None na tr ok
    by (simp add: get_or_create_team_def io_defs query_team_def add_team_def
        commit_def Let_def t1_def [symmetric] d1_def [symmetric] s1_def)
  have found: "find (\<lambda>x. team_key x = ?k) (teams (cur s1)) = Some t1"
    using None by (simp add: s1_def d1_def find_append_new t1_def)
  have second: "get_or_create_team rt name s1 = (Inr (Some t1), s1)"
    using found na tr by (simp add: get_or_create_team_def io_defs query_team_def)
  have "filter (\<lambda>x. team_key x = ?k) (teams (saved s1)) = [t1]"
    using filter_none [OF None] by (simp add: s1_def d1_def t1_def)
  moreover have "consistent s1" using ok by (simp add: consistent_def s1_def)
  ultimately show ?thesis using first second by blast
qed

lemma py_int_raises: "py_int rt v = Inl e \<Longrightarrow> e = ValueError \<or> e = TypeError"
  by (cases v) (auto split: option.splits)

lemma driver_number_of_total: "\<exists>num. driver_number_of rt info = Inr num"
proof (cases "pd_notna (row_get info ''DriverNumber'')")
  case False
  then show ?thesis by (simp add: driver_number_of_def)
next
  case True
  show ?thesis
  proof (cases "py_int rt (row_get_default info ''DriverNumber'' (PyInt 0))")
    case (Inl e)
    then show ?thesis using True py_int_raises [OF Inl]
      by (auto simp: driver_number_of_def sbind_def)
  next
    case (Inr n)
    then show ?thesis using True by (simp add: driver_number_of_def sbind_def)
  qed
qed

lemma find_single_filter:
  "find P xs = Some y \<Longrightarrow> length (filter P xs) \<le> 1 \<Longrightarrow> filter P xs = [y]"
  by (induction xs) (auto split: if_splits)

lemma driver_resolution:
  assumes c: "consistent s" and na: "\<not> pd_isna abbr" and tr: "py_bool abbr"
      and u: "length (filter (\<lambda>x. driver_code x = py_strip (py_str rt abbr)) (drivers (saved s))) \<le> 1"
      and free: "\<And>num x. driver_number_of rt info = Inr (Some num) \<Longrightarrow> x \<in> set (drivers (saved s))
                 \<Longrightarrow> driver_code x \<noteq> py_strip (py_str rt abbr) \<Longrightarrow> driver_number x \<noteq> Some num"
  shows "\<exists>d s'. get_or_create_driver rt abbr (Some info) s = (Inr (Some d), s')
           \<and> get_or_create_driver rt abbr (Some info) s' = (Inr (Some d), s')
           \<and> filter (\<lambda>x. driver_code x = py_strip (py_str rt abbr)) (drivers (saved s')) = [d]"
proof -
  let ?k = "py_strip (py_str rt abbr)"
  have cs: "cur s = saved s" and ok0: "integrity_ok (saved s)"
    using c by (simp_all add: consistent_def)
  show ?thesis
  proof (cases "find (\<lambda>x. driver_code x = ?k) (drivers (cur s))")
    case (Some d0)
    have "get_or_create_driver rt abbr (Some info) s = (Inr (Some d0), s)"
      using Some na tr by (simp add: get_or_create_driver_def io_defs query_driver_def)
    moreover have "filter (\<lambda>x. driver_code x = ?k) (drivers (saved s)) = [d0]"
      using find_single_filter [of "\<lambda>x. driver_code x = ?k" "drivers (saved s)" d0] Some u cs
      by simp
    ultimately show ?thesis by blast
  next
    case None
    obtain num where num: "driver_number_of rt info = Inr num"
      using driver_number_of_total by blast
    define d1 where "d1 = \<lparr>driver_pk = next_id (map driver_pk (drivers (cur s))),
       driver_number = num, driver_code = ?k,
       first_name = py_str rt (row_get_default info ''FirstName'' (PyStr [])),
       last_name = py_str rt (row_get_default info ''LastName'' (PyStr [])),
       broadcast_name = py_str rt (row_get_default info ''BroadcastName'' (PyStr ?k)),
       driver_nationality = py_str rt (row_get_default info ''CountryCode'' (PyStr ''Unknown''))\<rparr>"
    define db1 where "db1 = (cur s)\<lparr>drivers := drivers (cur s) @ [d1]\<rparr>"
    define s1 where "s1 = \<lparr>cur = db1, saved = db1\<rparr>"
    have nocode: "driver_code x \<noteq> ?k" if "x \<in> set (drivers (saved s))" for x
      using None that cs by (auto simp: find_None_iff_all)
    have fresh: "num = None \<or> num \<notin> set (map driver_number (drivers (saved s)))"
    proof (cases num)
      case None
      then show ?thesis by simp
    next
      case (Some n)
      then show ?thesis using free [of n] num nocode by force
    qed
    have iok: "integrity_ok db1"
      using ok0 fresh cs by (auto simp: db1_def integrity_ok_def d1_def)
    have first: "get_or_create_driver rt abbr (Some info) s = (Inr (Some d1), s1)"
      using None na tr num iok
      by (simp add: get_or_create_driver_def io_defs query_driver_def add_driver_def
          commit_def Let_def d1_def [symmetric] db1_def [symmetric] s1_def)
    have found: "find (\<lambda>x. driver_code x = ?k) (drivers (cur s1)) = Some d1"
      using None by (simp add: s1_def db1_def find_append_new d1_def)
    have second: "get_or_create_driver rt abbr (Some info) s1 = (Inr (Some d1), s1)"
      using found na tr by (simp add: get_or_create_driver_def io_defs query_driver_def)
    have "filter (\<lambda>x. driver_code x = ?k) (drivers (saved s1)) = [d1]"
      using filter_none [OF None] by (simp add: s1_def db1_def d1_def)
    then show ?thesis using first second by blast
  qed
qed

text \<open>
  Claim C2, at a driver whose number is taken. From the empty store, resolving the code
  BUT with a descriptor of number 22 stores that driver. Resolving then the new code TSU,
  whose descriptor carries the number 22 too, finds no driver of that code, adds one and
  raises at the commit, because the column \<^verbatim>\<open>drivers.driver_number\<close> is unique while the
  lookup is by code. No row of the code TSU is stored or returned, and a second call
  raises again.
\<close>

theorem get_or_create_driver_number_collision:
  "get_or_create_driver example_rt (PyStr ''BUT'') (Some button_info) (session_on empty_db)
     = (Inr (Some (hd (drivers button_db))), session_on button_db)
   \<and> consistent (session_on button_db)
   \<and> fst (get_or_create_driver example_rt (PyStr ''TSU'')
        (Some [(''DriverNumber'', PyInt 22), (''FirstName'', PyStr ''Yuki'')]) (session_on button_db))
      = Inl IntegrityError
   \<and> filter (\<lambda>x. driver_code x = ''TSU'')
        (drivers (saved (snd (get_or_create_driver example_rt (PyStr ''TSU'')
          (Some [(''DriverNumber'', PyInt 22), (''FirstName'', PyStr ''Yuki'')])
          (session_on button_db))))) = []
   \<and> fst (repeat_io 2 (get_or_create_driver example_rt (PyStr ''TSU'')
        (Some [(''DriverNumber'', PyInt 22), (''FirstName'', PyStr ''Yuki'')])) (session_on button_db))
      = Inl IntegrityError"
  by (simp add: consistent_def session_on_def button_db_def button_info_def empty_db_def
    integrity_ok_def numeral_2_eq_2
    get_or_create_driver_def io_defs query_driver_def add_driver_def commit_def Let_def
    driver_number_of_def pd_notna_def row_get_def row_get_default_def sbind_def py_str_def
    py_strip_def is_space_def next_id_def example_rt_def)

text \<open>
  Claim C2, everywhere else: from a consistent session, resolving a circuit descriptor,
  or a team name that is neither missing nor empty, \<open>n \<ge> 1\<close> times returns the same row at
  every call and leaves exactly one stored row of the derived key. So does resolving a
  driver descriptor under a code that is neither missing nor empty, when the store holds
  at most one driver of that code and the number of the descriptor is carried by no
  stored driver of another code. The calls after the first leave the session as the first
  left it: no second row is created and the row is not updated.
\<close>

theorem entity_resolution_idempotent:
  assumes "consistent s" and "0 < n"
  shows "(getitem event ''EventName'' = Inr name \<longrightarrow>
            (\<exists>c s'. get_or_create_circuit rt event s = (Inr c, s')
               \<and> repeat_io n (get_or_create_circuit rt event) s = (Inr (replicate n c), s')
               \<and> filter (\<lambda>x. circuit_key x = circuit_key_of (py_str rt name)) (circuits (saved s')) = [c]))
       \<and> (\<not> pd_isna tname \<and> py_bool tname \<longrightarrow>
            (\<exists>t s'. get_or_create_team rt tname s = (Inr (Some t), s')
               \<and> repeat_io n (get_or_create_team rt tname) s = (Inr (replicate n (Some t)), s')
               \<and> filter (\<lambda>x. team_key x = team_key_of (py_strip (py_str rt tname))) (teams (saved s')) = [t]))
       \<and> (\<not> pd_isna abbr \<and> py_bool abbr
          \<and> length (filter (\<lambda>x. driver_code x = py_strip (py_str rt abbr)) (drivers (saved s))) \<le> 1
          \<and> (\<forall>num. driver_number_of rt info = Inr (Some num) \<longrightarrow>
                (\<forall>x \<in> set (drivers (saved s)).
                   driver_code x \<noteq> py_strip (py_str rt abbr) \<longrightarrow> driver_number x \<noteq> Some num))
          \<longrightarrow>
            (\<exists>d s'. get_or_create_driver rt abbr (Some info) s = (Inr (Some d), s')
               \<and> repeat_io n (get_or_create_driver rt abbr (Some info)) s
                    = (Inr (replicate n (Some d)), s')
               \<and> filter (\<lambda>x. driver_code x = py_strip (py_str rt abbr)) (drivers (saved s')) = [d]))"
proof -
  obtain m where n: "n = Suc m" using assms(2) by (cases n) simp_all
  have circuit: "\<exists>c s'. get_or_create_circuit rt event s = (Inr c, s')
               \<and> repeat_io n (get_or_create_circuit rt event) s = (Inr (replicate n c), s')
               \<and> filter (\<lambda>x. circuit_key x = circuit_key_of (py_str rt name)) (circuits (saved s')) = [c]"
    if "getitem event ''EventName'' = Inr name"
  proof -
    from circuit_resolution [OF assms(1) that, of rt] obtain c s' where
      "get_or_create_circuit rt event s = (Inr c, s')"
      "get_or_create_circuit rt event s' = (Inr c, s')"
      "filter (\<lambda>x. circuit_key x = circuit_key_of (py_str rt name)) (circuits (saved s')) = [c]"
      by blast
    then show ?thesis using repeat_io_fix [of "get_or_create_circuit rt event" s c s' m]
      unfolding n by blast
  qed
  have team: "\<exists>t s'. get_or_create_team rt tname s = (Inr (Some t), s')
               \<and> repeat_io n (get_or_create_team rt tname) s = (Inr (replicate n (Some t)), s')
               \<and> filter (\<lambda>x. team_key x = team_key_of (py_strip (py_str rt tname))) (teams (saved s')) = [t]"
    if "\<not> pd_isna tname" "py_bool tname"
  proof -
    from team_resolution [OF assms(1) that, of rt] obtain t s' where
      "get_or_create_team rt tname s = (Inr (Some t), s')"
      "get_or_create_team rt tname s' = (Inr (Some t), s')"
      "filter (\<lambda>x. team_key x = team_key_of (py_strip (py_str rt tname))) (teams (saved s')) = [t]"
      by blast
    then show ?thesis using repeat_io_fix [of "get_or_create_team rt tname" s "Some t" s' m]
      unfolding n by blast
  qed
  have driver: "\<exists>d s'. get_or_create_driver rt abbr (Some info) s = (Inr (Some d), s')
               \<and> repeat_io n (get_or_create_driver rt abbr (Some info)) s
                    = (Inr (replicate n (Some d)), s')
               \<and> filter (\<lambda>x. driver_code x = py_strip (py_str rt abbr)) (drivers (saved s')) = [d]"
    if "\<not> pd_isna abbr" "py_bool abbr"
       "length (filter (\<lambda>x. driver_code x = py_strip (py_str rt abbr)) (drivers (saved s))) \<le> 1"
       "\<forall>num. driver_number_of rt info = Inr (Some num) \<longrightarrow>
                (\<forall>x \<in> set (drivers (saved s)).
                   driver_code x \<noteq> py_strip (py_str rt abbr) \<longrightarrow> driver_number x \<noteq> Some num)"
  proof -
    have "\<exists>d s'. get_or_create_driver rt abbr (Some info) s = (Inr (Some d), s')
           \<and> get_or_create_driver rt abbr (Some info) s' = (Inr (Some d), s')
           \<and> filter (\<lambda>x. driver_code x = py_strip (py_str rt abbr)) (drivers (saved s')) = [d]"
    proof (rule driver_resolution [OF assms(1) that(1) that(2) that(3)])
      fix num x
      assume "driver_number_of rt info = Inr (Some num)" "x \<in> set (drivers (saved s))"
        "driver_code x \<noteq> py_strip (py_str rt abbr)"
      then show "driver_number x \<noteq> Some num" using that(4) by blast
    qed
    then obtain d s' where
      "get_or_create_driver rt abbr (Some info) s = (Inr (Some d), s')"
      "get_or_create_driver rt abbr (Some info) s' = (Inr (Some d), s')"
      "filter (\<lambda>x. driver_code x = py_strip (py_str rt abbr)) (drivers (saved s')) = [d]"
      by blast
    then show ?thesis
      using repeat_io_fix [of "get_or_create_driver rt abbr (Some info)" s "Some d" s' m]
      unfolding n by blast
  qed
  show ?thesis using circuit team driver by blast
qed

theorem entity_resolution_idempotent_witness:
  "consistent (session_on button_db) \<and> (0::nat) < 3
   \<and> getitem [(''EventName'', PyStr ''Monaco Grand Prix'')] ''EventName'' = Inr (PyStr ''Monaco Grand Prix'')
   \<and> (\<exists>c s'. repeat_io 3 (get_or_create_circuit example_rt [(''EventName'', PyStr ''Monaco Grand Prix'')])
          (session_on button_db) = (Inr [c, c, c], s')
        \<and> filter (\<lambda>x. circuit_key x = circuit_key_of ''Monaco Grand Prix'') (circuits (saved s')) = [c])
   \<and> \<not> pd_isna (PyStr ''Ferrari'') \<and> py_bool (PyStr ''Ferrari'')
   \<and> (\<exists>t s'. repeat_io 3 (get_or_create_team example_rt (PyStr ''Ferrari''))
          (session_on button_db) = (Inr [Some t, Some t, Some t], s')
        \<and> filter (\<lambda>x. team_key x = team_key_of (py_strip ''Ferrari'')) (teams (saved s')) = [t])
   \<and> \<not> pd_isna (PyStr ''LEC'') \<and> py_bool (PyStr ''LEC'')
   \<and> filter (\<lambda>x. driver_code x = py_strip ''LEC'') (drivers (saved (session_on button_db))) = []
   \<and> driver_number_of example_rt leclerc_info = Inr (Some 16)
   \<and> map driver_number (drivers (saved (session_on button_db))) = [Some 22]
   \<and> (\<exists>d s'. repeat_io 3 (get_or_create_driver example_rt (PyStr ''LEC'') (Some leclerc_info))
          (session_on button_db) = (Inr [Some d, Some d, Some d], s')
        \<and> filter (\<lambda>x. driver_code x = py_strip ''LEC'') (drivers (saved s')) = [d])"
proof -
  have c: "consistent (session_on button_db)"
    by (simp add: consistent_def session_on_def button_db_def empty_db_def integrity_ok_def)
  have e: "getitem [(''EventName'', PyStr ''Monaco Grand Prix'')] ''EventName'' = Inr (PyStr ''Monaco Grand Prix'')"
    by (simp add: getitem_def)
  have f: "filter (\<lambda>x. driver_code x = py_strip ''LEC'') (drivers (saved (session_on button_db))) = []"
    by (simp add: session_on_def button_db_def empty_db_def py_strip_def is_space_def)
  have num: "driver_number_of example_rt leclerc_info = Inr (Some 16)"
    by (simp add: driver_number_of_def leclerc_info_def pd_notna_def row_get_def
        row_get_default_def sbind_def)
  have nums: "map driver_number (drivers (saved (session_on button_db))) = [Some 22]"
    by (simp add: session_on_def button_db_def empty_db_def)
  have free: "\<forall>n. driver_number_of example_rt leclerc_info = Inr (Some n) \<longrightarrow>
      (\<forall>x \<in> set (drivers (saved (session_on button_db))).
         driver_code x \<noteq> py_strip (py_str example_rt (PyStr ''LEC'')) \<longrightarrow> driver_number x \<noteq> Some n)"
    using num by (simp add: session_on_def button_db_def empty_db_def)
  have r: "replicate 3 x = [x, x, x]" for x :: 'a
    by (simp add: numeral_3_eq_3)
  have three: "(0::nat) < 3" by simp
  note t = entity_resolution_idempotent [where s = "session_on button_db" and n = 3
      and event = "[(''EventName'', PyStr ''Monaco Grand Prix'')]"
      and name = "PyStr ''Monaco Grand Prix''" and rt = example_rt
      and tname = "PyStr ''Ferrari''" and abbr = "PyStr ''LEC''" and info = leclerc_info,
      OF c three]
  have tc: "\<exists>c s'. repeat_io 3 (get_or_create_circuit example_rt [(''EventName'', PyStr ''Monaco Grand Prix'')])
          (session_on button_db) = (Inr [c, c, c], s')
        \<and> filter (\<lambda>x. circuit_key x = circuit_key_of ''Monaco Grand Prix'') (circuits (saved s')) = [c]"
    using t [THEN conjunct1] e by (simp add: r py_str_def) blast
  have tt: "\<exists>t s'. repeat_io 3 (get_or_create_team example_rt (PyStr ''Ferrari''))
          (session_on button_db) = (Inr [Some t, Some t, Some t], s')
        \<and> filter (\<lambda>x. team_key x = team_key_of (py_strip ''Ferrari'')) (teams (saved s')) = [t]"
    using t [THEN conjunct2, THEN conjunct1] by (simp add: r py_str_def) blast
  have td: "\<exists>d s'. repeat_io 3 (get_or_create_driver example_rt (PyStr ''LEC'') (Some leclerc_info))
          (session_on button_db) = (Inr [Some d, Some d, Some d], s')
        \<and> filter (\<lambda>x. driver_code x = py_strip ''LEC'') (drivers (saved s')) = [d]"
  proof -
    have "\<exists>d s'. get_or_create_driver example_rt (PyStr ''LEC'') (Some leclerc_info) (session_on button_db)
              = (Inr (Some d), s')
        \<and> repeat_io 3 (get_or_create_driver example_rt (PyStr ''LEC'') (Some leclerc_info))
            (session_on button_db) = (Inr (replicate 3 (Some d)), s')
        \<and> filter (\<lambda>x. driver_code x = py_strip (py_str example_rt (PyStr ''LEC''))) (drivers (saved s')) = [d]"
    proof (rule t [THEN conjunct2, THEN conjunct2, rule_format])
      show "\<not> pd_isna (PyStr ''LEC'') \<and> py_bool (PyStr ''LEC'')
        \<and> length (filter (\<lambda>x. driver_code x = py_strip (py_str example_rt (PyStr ''LEC'')))
             (drivers (saved (session_on button_db)))) \<le> 1
        \<and> (\<forall>n. driver_number_of example_rt leclerc_info = Inr (Some n) \<longrightarrow>
            (\<forall>x \<in> set (drivers (saved (session_on button_db))).
              driver_code x \<noteq> py_strip (py_str example_rt (PyStr ''LEC'')) \<longrightarrow> driver_number x \<noteq> Some n))"
        using f free by (simp add: py_str_def)
    qed
    then show ?thesis by (simp add: r py_str_def) blast
  qed
  show ?thesis
    using c e tc tt f num nums td by simp
qed

text \<open>
  Claim C10: for a non-empty driver code with no stored driver, resolution without a
  descriptor returns null and leaves the session, and so the store, as it was.
\<close>

theorem get_or_create_driver_without_descriptor:
  assumes "code \<noteq> []"
      and "filter (\<lambda>d. driver_code d = py_strip code) (drivers (cur s)) = []"
  shows "get_or_create_driver rt (PyStr code) None s = (Inr None, s)"
proof -
  have "find (\<lambda>d. driver_code d = py_strip code) (drivers (cur s)) = None"
    using assms(2) by (simp add: find_None_iff_all filter_empty_conv)
  then show ?thesis
    using assms(1)
    by (simp add: get_or_create_driver_def io_defs query_driver_def py_str_def)
qed

theorem get_or_create_driver_without_descriptor_witness:
  "''VER'' \<noteq> []
   \<and> filter (\<lambda>d. driver_code d = py_strip ''VER'') (drivers (cur (session_on button_db))) = []
   \<and> get_or_create_driver example_rt (PyStr ''VER'') None (session_on button_db)
       = (Inr None, session_on button_db)"
proof -
  have f: "filter (\<lambda>d. driver_code d = py_strip ''VER'') (drivers (cur (session_on button_db))) = []"
    by (simp add: session_on_def button_db_def empty_db_def py_strip_def is_space_def)
  show ?thesis
    using get_or_create_driver_without_descriptor [of "''VER''" "session_on button_db" example_rt] f
    by simp
qed

lemma appends_refl: "table_upd upd \<Longrightarrow> appends upd P s s"
  unfolding appends_def table_upd_def
  by (auto intro!: exI [of _ "[]"])

lemma appends_trans:
  assumes "table_upd upd" "appends upd P a b" "appends upd P b c"
  shows "appends upd P a c"
proof -
  from assms(2) obtain n1 where 1: "saved b = saved a" "cur b = upd (\<lambda>rows. rows @ n1) (cur a)"
    "list_all (P (drivers (cur a))) n1" unfolding appends_def by blast
  from assms(3) obtain n2 where 2: "saved c = saved b" "cur c = upd (\<lambda>rows. rows @ n2) (cur b)"
    "list_all (P (drivers (cur b))) n2" unfolding appends_def by blast
  have d: "drivers (cur b) = drivers (cur a)" using 1(2) assms(1) by (simp add: table_upd_def)
  have "cur c = upd (\<lambda>rows. rows @ (n1 @ n2)) (cur a)"
    using 1(2) 2(2) assms(1) by (simp add: table_upd_def)
  moreover have "list_all (P (drivers (cur a))) (n1 @ n2)" using 1(3) 2(3) d by simp
  ultimately show ?thesis unfolding appends_def using 1(1) 2(1) by auto
qed

lemma for_each_appends:
  assumes t: "table_upd upd"
      and step: "\<And>x s res s'. x \<in> set xs \<Longrightarrow> f x s = (res, s') \<Longrightarrow> appends upd P s s'"
  shows "for_each f xs s = (res, s') \<Longrightarrow> appends upd P s s'"
  using step
proof (induction xs arbitrary: s res s')
  case Nil
  then show ?case using appends_refl [OF t] by simp
next
  case (Cons x xs)
  obtain r1 s1 where f: "f x s = (r1, s1)" by (cases "f x s")
  have a1: "appends upd P s s1" using Cons.prems(2) [of x s r1 s1] f by simp
  show ?case
  proof (cases r1)
    case (Inl e)
    then show ?thesis using Cons.prems(1) f a1 by simp
  next
    case (Inr n)
    obtain r2 s2 where g: "for_each f xs s1 = (r2, s2)" by (cases "for_each f xs s1")
    have "appends upd P s1 s2"
    proof (rule Cons.IH [OF g])
      fix y t r t' assume "y \<in> set xs" "f y t = (r, t')"
      then show "appends upd P t t'" using Cons.prems(2) [of y t r t'] by simp
    qed
    then have "appends upd P s s2" using appends_trans [OF t a1] by blast
    moreover have "s' = s2" using Cons.prems(1) f g Inr by (auto split: sum.splits)
    ultimately show ?thesis by simp
  qed
qed

lemma bind_assoc: "bind (bind m f) g = bind m (\<lambda>x. bind (f x) g)"
  by (rule ext) (simp add: bind_def split: prod.splits sum.splits)

lemma loader_outcome:
  assumes body: "\<And>res s'. body s = (res, s') \<Longrightarrow> appends upd P s s'"
  shows "\<exists>rep s'. try_except (bind body (\<lambda>n. bind commit (\<lambda>_. ret (Loaded (k n)))))
            (\<lambda>e. bind rollback (\<lambda>_. ret (Failed e))) s = (Inr rep, s')
          \<and> loader_ok upd P s rep s'"
proof -
  obtain r1 s1 where b: "body s = (r1, s1)" by (cases "body s")
  from body [OF b] obtain new where n: "saved s1 = saved s"
    "cur s1 = upd (\<lambda>rows. rows @ new) (cur s)" "list_all (P (drivers (cur s))) new"
    unfolding appends_def by blast
  have rb: "s1\<lparr>cur := saved s1\<rparr> = s\<lparr>cur := saved s\<rparr>"
    using n(1) by (cases s, cases s1) simp
  show ?thesis
  proof (cases r1)
    case (Inl e)
    then show ?thesis using b rb
      by (simp add: io_defs rollback_def loader_ok_def)
  next
    case (Inr m)
    show ?thesis
    proof (cases "integrity_ok (cur s1)")
      case True
      then show ?thesis using b Inr n
        by (auto simp: io_defs commit_def loader_ok_def)
    next
      case False
      then show ?thesis using b Inr rb
        by (simp add: io_defs commit_def rollback_def loader_ok_def)
    qed
  qed
qed

lemma table_upds:
  "table_upd qualifying_results_update" "table_upd race_results_update"
  "table_upd lap_times_update" "table_upd pit_stops_update" "table_upd weather_rows_update"
  by (simp_all add: table_upd_def)

lemma append_upds:
  "qualifying_results_update (\<lambda>rows. rows @ q) d = d\<lparr>qualifying_results := qualifying_results d @ q\<rparr>"
  "race_results_update (\<lambda>rows. rows @ r) d = d\<lparr>race_results := race_results d @ r\<rparr>"
  "lap_times_update (\<lambda>rows. rows @ l) d = d\<lparr>lap_times := lap_times d @ l\<rparr>"
  "pit_stops_update (\<lambda>rows. rows @ p) d = d\<lparr>pit_stops := pit_stops d @ p\<rparr>"
  "weather_rows_update (\<lambda>rows. rows @ w) d = d\<lparr>weather_rows := weather_rows d @ w\<rparr>"
  by (cases d; simp)+

lemma query_driver_cell_cases:
  obtains (none) "query_driver_cell v s = (Inr None, s)"
  | (some) d where "query_driver_cell v s = (Inr (Some d), s)" "v = PyStr (driver_code d)"
      "d \<in> set (drivers (cur s))"
proof (cases "fst (query_driver_cell v s)")
  case (Inl e)
  then show ?thesis by (simp add: query_driver_cell_def split: pyval.splits)
next
  case (Inr found)
  have sn: "snd (query_driver_cell v s) = s"
    by (simp add: query_driver_cell_def split: pyval.splits)
  show ?thesis
  proof (cases found)
    case None
    then show ?thesis using Inr sn none by (metis prod.collapse)
  next
    case (Some d)
    then have q: "query_driver_cell v s = (Inr (Some d), s)" using Inr sn by (metis prod.collapse)
    then obtain c where "v = PyStr c" "find (\<lambda>d. driver_code d = c) (drivers (cur s)) = Some d"
      by (auto simp: query_driver_cell_def split: pyval.splits)
    then show ?thesis using q some find_Some_prop [of "\<lambda>d. driver_code d = c"] by blast
  qed
qed

lemma appends_one:
  assumes "s' = s\<lparr>cur := upd (\<lambda>rows. rows @ [x]) (cur s)\<rparr>" "P (drivers (cur s)) x"
  shows "appends upd P s s'"
  unfolding appends_def using assms by (auto intro!: exI [of _ "[x]"])

lemma load_qualifying_row_appends:
  assumes "r \<in> set rows" "load_qualifying_row rt race_entry r s = (res, s')"
  shows "appends qualifying_results_update (built_qualifying rt race_entry rows) s s'"
proof (cases "getitem r ''Abbreviation''")
  case (Inl e)
  then show ?thesis using assms appends_refl [OF table_upds(1)]
    by (simp add: load_qualifying_row_def io_defs)
next
  case (Inr abbr)
  show ?thesis
  proof (cases abbr s rule: query_driver_cell_cases)
    case none
    then show ?thesis using assms Inr appends_refl [OF table_upds(1)]
      by (simp add: load_qualifying_row_def io_defs)
  next
    case (some d)
    show ?thesis
    proof (cases "qualifying_result_of rt race_entry d r")
      case (Inl e)
      then show ?thesis using assms Inr some appends_refl [OF table_upds(1)]
        by (simp add: load_qualifying_row_def io_defs)
    next
      case q: (Inr q)
      have "built_qualifying rt race_entry rows (drivers (cur s)) q"
        unfolding built_qualifying_def using assms(1) some Inr q by blast
      moreover have "s' = s\<lparr>cur := qualifying_results_update (\<lambda>rows. rows @ [q]) (cur s)\<rparr>"
        using assms(2) Inr some q
        by (auto simp: load_qualifying_row_def io_defs add_qualifying_result_def append_upds)
      ultimately show ?thesis by (rule appends_one [rotated])
    qed
  qed
qed

lemma column_all2:
  "column rows k = Inr col \<Longrightarrow> list_all2 (\<lambda>r v. getitem r k = Inr v) rows col"
proof (induction rows arbitrary: col)
  case Nil
  then show ?case by simp
next
  case (Cons r rs)
  then show ?case by (auto split: sum.splits)
qed

lemma column_zip:
  assumes "column rows k = Inr col" "(v, r) \<in> set (zip col rows)"
  shows "r \<in> set rows \<and> getitem r k = Inr v"
proof -
  have "list_all2 (\<lambda>r v. getitem r k = Inr v) rows col" using assms(1) by (rule column_all2)
  then have "list_all2 (\<lambda>v r. getitem r k = Inr v) col rows" by (simp add: list_all2_conv_all_nth)
  then show ?thesis using assms(2) by (auto simp: list_all2_iff dest: set_zip_rightD)
qed

lemma pick_driver_rows:
  assumes "pick_driver lap_rows abbr = Inr ls" "l \<in> set ls"
  shows "l \<in> set lap_rows \<and> getitem l ''Driver'' = Inr abbr"
proof -
  obtain col where c: "column lap_rows ''Driver'' = Inr col"
    and ls: "ls = map snd (filter (\<lambda>(v, l). v = abbr) (zip col lap_rows))"
    using assms(1) by (auto simp: pick_driver_def sbind_def split: sum.splits)
  from assms(2) ls have "(abbr, l) \<in> set (zip col lap_rows)" by auto
  then show ?thesis using column_zip [OF c] by blast
qed

lemma pit_out_laps_rows:
  assumes "pit_out_laps lap_rows = Inr ls" "l \<in> set ls"
  shows "l \<in> set lap_rows"
proof -
  obtain col where c: "column lap_rows ''PitOutTime'' = Inr col"
    and ls: "ls = map snd (filter (\<lambda>(v, l). pd_notna v) (zip col lap_rows))"
    using assms(1) by (auto simp: pit_out_laps_def sbind_def split: sum.splits)
  from assms(2) ls obtain v where "(v, l) \<in> set (zip col lap_rows)" by auto
  then show ?thesis using column_zip [OF c] by blast
qed

lemma load_race_result_row_appends:
  assumes "r \<in> set rows" "load_race_result_row rt race_entry r s = (res, s')"
  shows "appends race_results_update (built_race_result rt race_entry rows) s s'"
proof (cases "getitem r ''Abbreviation''")
  case (Inl e)
  then show ?thesis using assms appends_refl [OF table_upds(2)]
    by (simp add: load_race_result_row_def io_defs)
next
  case (Inr abbr)
  show ?thesis
  proof (cases abbr s rule: query_driver_cell_cases)
    case none
    then show ?thesis using assms Inr appends_refl [OF table_upds(2)]
      by (simp add: load_race_result_row_def io_defs)
  next
    case (some d)
    have "\<exists>t. query_team_by_name (row_get r ''TeamName'') s = (Inr t, s)"
      by (cases "row_get r ''TeamName''") (simp_all add: query_team_by_name_def)
    then obtain t where t: "query_team_by_name (row_get r ''TeamName'') s = (Inr t, s)" ..
    show ?thesis
    proof (cases "race_result_of rt race_entry d t r")
      case (Inl e)
      then show ?thesis using assms Inr some t appends_refl [OF table_upds(2)]
        by (simp add: load_race_result_row_def io_defs)
    next
      case x: (Inr x)
      have "built_race_result rt race_entry rows (drivers (cur s)) x"
        unfolding built_race_result_def using assms(1) some Inr x by blast
      moreover have "s' = s\<lparr>cur := race_results_update (\<lambda>rows. rows @ [x]) (cur s)\<rparr>"
        using assms(2) Inr some x t
        by (auto simp: load_race_result_row_def io_defs add_race_result_def append_upds)
      ultimately show ?thesis by (rule appends_one [rotated])
    qed
  qed
qed

lemma load_lap_row_appends:
  assumes "lap \<in> set rows" "getitem lap ''Driver'' = Inr (PyStr (driver_code d))"
    "d \<in> set (drivers (cur s))" "load_lap_row rt race_entry d lap s = (res, s')"
  shows "appends lap_times_update (built_lap_time rt race_entry rows) s s'"
proof (cases "lap_time_of rt race_entry d lap")
  case (Inl e)
  then show ?thesis using assms appends_refl [OF table_upds(3)]
    by (simp add: load_lap_row_def io_defs)
next
  case x: (Inr x)
  have "built_lap_time rt race_entry rows (drivers (cur s)) x"
    unfolding built_lap_time_def using assms x by blast
  moreover have "s' = s\<lparr>cur := lap_times_update (\<lambda>rows. rows @ [x]) (cur s)\<rparr>"
    using assms(4) x
    by (auto simp: load_lap_row_def io_defs add_lap_time_def append_upds)
  ultimately show ?thesis by (rule appends_one [rotated])
qed

lemma appends_drivers: "table_upd upd \<Longrightarrow> appends upd P s s' \<Longrightarrow> drivers (cur s') = drivers (cur s)"
  by (auto simp: appends_def table_upd_def)

lemma load_driver_laps_appends:
  assumes "load_driver_laps rt race_entry race_session abbr s = (res, s')"
  shows "appends lap_times_update (built_lap_time rt race_entry (laps race_session)) s s'"
proof (cases abbr s rule: query_driver_cell_cases)
  case none
  then show ?thesis using assms appends_refl [OF table_upds(3)]
    by (simp add: load_driver_laps_def io_defs)
next
  case (some d)
  show ?thesis
  proof (cases "pick_driver (laps race_session) abbr")
    case (Inl e)
    then show ?thesis using assms some appends_refl [OF table_upds(3)]
      by (simp add: load_driver_laps_def io_defs)
  next
    case (Inr ls)
    have fe: "for_each (load_lap_row rt race_entry d) ls s = (res, s')"
      using assms some Inr by (simp add: load_driver_laps_def io_defs)
    have "d \<in> set (drivers (cur a)) \<longrightarrow>
       d \<in> set (drivers (cur b))
       \<and> appends lap_times_update (built_lap_time rt race_entry (laps race_session)) a b"
      if "for_each (load_lap_row rt race_entry d) xs a = (r, b)" "set xs \<subseteq> set ls" for xs a r b
      using that
    proof (induction xs arbitrary: a r b)
      case Nil
      then show ?case using appends_refl [OF table_upds(3)] by simp
    next
      case (Cons x xs)
      obtain r1 a1 where f: "load_lap_row rt race_entry d x a = (r1, a1)"
        by (cases "load_lap_row rt race_entry d x a")
      show ?case
      proof
        assume din: "d \<in> set (drivers (cur a))"
        have xin: "x \<in> set (laps race_session)" "getitem x ''Driver'' = Inr (PyStr (driver_code d))"
          using pick_driver_rows [OF Inr, of x] Cons.prems(2) some(2) by auto
        have a1: "appends lap_times_update (built_lap_time rt race_entry (laps race_session)) a a1"
          using load_lap_row_appends [OF xin din f] .
        have d1: "d \<in> set (drivers (cur a1))"
          using appends_drivers [OF table_upds(3) a1] din by simp
        show "d \<in> set (drivers (cur b))
          \<and> appends lap_times_update (built_lap_time rt race_entry (laps race_session)) a b"
        proof (cases r1)
          case (Inl e)
          then show ?thesis using Cons.prems(1) f a1 d1 by simp
        next
          case (Inr n)
          obtain r2 a2 where g: "for_each (load_lap_row rt race_entry d) xs a1 = (r2, a2)"
            by (cases "for_each (load_lap_row rt race_entry d) xs a1")
          have "d \<in> set (drivers (cur a2))
            \<and> appends lap_times_update (built_lap_time rt race_entry (laps race_session)) a1 a2"
            using Cons.IH [OF g] Cons.prems(2) d1 by simp
          moreover have "b = a2" using Cons.prems(1) f g Inr by (auto split: sum.splits)
          ultimately show ?thesis using appends_trans [OF table_upds(3) a1] by blast
        qed
      qed
    qed
    from this [OF fe] some(3) show ?thesis by simp
  qed
qed

lemma load_pit_stop_row_appends:
  assumes "lap \<in> set rows" "load_pit_stop_row rt race_entry lap s = (res, s')"
  shows "appends pit_stops_update (built_pit_stop rt race_entry rows) s s'"
proof (cases "getitem lap ''Driver''")
  case (Inl e)
  then show ?thesis using assms appends_refl [OF table_upds(4)]
    by (simp add: load_pit_stop_row_def io_defs)
next
  case (Inr abbr)
  show ?thesis
  proof (cases abbr s rule: query_driver_cell_cases)
    case none
    then show ?thesis using assms Inr appends_refl [OF table_upds(4)]
      by (simp add: load_pit_stop_row_def io_defs)
  next
    case (some d)
    show ?thesis
    proof (cases "pit_stop_of rt race_entry d lap")
      case (Inl e)
      then show ?thesis using assms Inr some appends_refl [OF table_upds(4)]
        by (simp add: load_pit_stop_row_def io_defs)
    next
      case x: (Inr x)
      have "built_pit_stop rt race_entry rows (drivers (cur s)) x"
        unfolding built_pit_stop_def using assms(1) some Inr x by blast
      moreover have "s' = s\<lparr>cur := pit_stops_update (\<lambda>rows. rows @ [x]) (cur s)\<rparr>"
        using assms(2) Inr some x
        by (auto simp: load_pit_stop_row_def io_defs add_pit_stop_def append_upds)
      ultimately show ?thesis by (rule appends_one [rotated])
    qed
  qed
qed

lemma load_weather_row_appends:
  assumes "r \<in> set rows" "load_weather_row rt race_entry r s = (res, s')"
  shows "appends weather_rows_update (built_weather rt race_entry rows) s s'"
proof (cases "weather_entry_of rt race_entry r")
  case (Inl e)
  then show ?thesis using assms appends_refl [OF table_upds(5)]
    by (simp add: load_weather_row_def io_defs)
next
  case x: (Inr x)
  have "built_weather rt race_entry rows (drivers (cur s)) x"
    unfolding built_weather_def using assms(1) x by blast
  moreover have "s' = s\<lparr>cur := weather_rows_update (\<lambda>rows. rows @ [x]) (cur s)\<rparr>"
    using assms(2) x
    by (auto simp: load_weather_row_def io_defs add_weather_def append_upds)
  ultimately show ?thesis by (rule appends_one [rotated])
qed

lemma load_qualifying_results_outcome:
  "\<exists>rep s'. load_qualifying_results rt race_entry quali_session s = (Inr rep, s')
     \<and> loader_ok qualifying_results_update
          (built_qualifying rt race_entry (results quali_session)) s rep s'"
  unfolding load_qualifying_results_def
  by (rule loader_outcome) (rule for_each_appends [OF table_upds(1) load_qualifying_row_appends])

lemma load_race_results_outcome:
  "\<exists>rep s'. load_race_results rt race_entry race_session s = (Inr rep, s')
     \<and> loader_ok race_results_update
          (built_race_result rt race_entry (results race_session)) s rep s'"
  unfolding load_race_results_def
  by (rule loader_outcome) (rule for_each_appends [OF table_upds(2) load_race_result_row_appends])

lemma load_lap_times_sample_outcome:
  "\<exists>rep s'. load_lap_times_sample rt race_entry race_session s = (Inr rep, s')
     \<and> loader_ok lap_times_update
          (built_lap_time rt race_entry (laps race_session)) s rep s'"
proof -
  let ?body = "bind (lift (column (results race_session) ''Abbreviation''))
     (\<lambda>all_drivers. for_each (load_driver_laps rt race_entry race_session) all_drivers)"
  have eq: "load_lap_times_sample rt race_entry race_session =
      try_except (bind ?body (\<lambda>n. bind commit (\<lambda>_. ret (Loaded n))))
        (\<lambda>e. bind rollback (\<lambda>_. ret (Failed e)))"
    by (simp add: load_lap_times_sample_def bind_assoc)
  have body: "appends lap_times_update (built_lap_time rt race_entry (laps race_session)) s s'"
    if "?body s = (res, s')" for res s'
  proof (cases "column (results race_session) ''Abbreviation''")
    case (Inl e)
    then show ?thesis using that appends_refl [OF table_upds(3)] by (simp add: io_defs)
  next
    case (Inr all_drivers)
    then have fe: "for_each (load_driver_laps rt race_entry race_session) all_drivers s = (res, s')"
      using that by (simp add: io_defs)
    show ?thesis
    proof (rule for_each_appends [OF table_upds(3) _ fe])
      fix x t r t' assume "load_driver_laps rt race_entry race_session x t = (r, t')"
      then show "appends lap_times_update (built_lap_time rt race_entry (laps race_session)) t t'"
        by (rule load_driver_laps_appends)
    qed
  qed
  show ?thesis unfolding eq by (rule loader_outcome) (rule body)
qed

lemma load_pit_stops_outcome:
  "\<exists>rep s'. load_pit_stops rt race_entry race_session s = (Inr rep, s')
     \<and> loader_ok pit_stops_update
          (built_pit_stop rt race_entry (laps race_session)) s rep s'"
proof -
  let ?body = "bind (lift (pit_out_laps (laps race_session)))
     (\<lambda>pit_stops. for_each (load_pit_stop_row rt race_entry) pit_stops)"
  have eq: "load_pit_stops rt race_entry race_session =
      try_except (bind ?body (\<lambda>n. bind commit (\<lambda>_. ret (Loaded n))))
        (\<lambda>e. bind rollback (\<lambda>_. ret (Failed e)))"
    by (simp add: load_pit_stops_def bind_assoc)
  have body: "appends pit_stops_update (built_pit_stop rt race_entry (laps race_session)) s s'"
    if "?body s = (res, s')" for res s'
  proof (cases "pit_out_laps (laps race_session)")
    case (Inl e)
    then show ?thesis using that appends_refl [OF table_upds(4)] by (simp add: io_defs)
  next
    case (Inr ls)
    then have fe: "for_each (load_pit_stop_row rt race_entry) ls s = (res, s')"
      using that by (simp add: io_defs)
    show ?thesis
    proof (rule for_each_appends [OF table_upds(4) _ fe])
      fix x t r t' assume "x \<in> set ls" "load_pit_stop_row rt race_entry x t = (r, t')"
      then show "appends pit_stops_update (built_pit_stop rt race_entry (laps race_session)) t t'"
        using load_pit_stop_row_appends [of x "laps race_session"] pit_out_laps_rows [OF Inr]
        by blast
    qed
  qed
  show ?thesis unfolding eq by (rule loader_outcome) (rule body)
qed

lemma load_weather_data_outcome:
  "\<exists>rep s'. load_weather_data rt race_entry race_session s = (Inr rep, s')
     \<and> loader_ok weather_rows_update
          (built_weather rt race_entry (sampled race_session)) s rep s'"
proof (cases "weather race_session")
  case None
  then show ?thesis by (simp add: load_weather_data_def io_defs loader_ok_def)
next
  case (Some wd)
  then have eq: "load_weather_data rt race_entry race_session =
      try_except (bind (for_each (load_weather_row rt race_entry) (iloc_step 10 wd))
          (\<lambda>n. bind commit (\<lambda>_. ret (Loaded n))))
        (\<lambda>e. bind rollback (\<lambda>_. ret (Failed e)))"
    by (simp add: load_weather_data_def)
  have sm: "sampled race_session = iloc_step 10 wd" using Some by (simp add: sampled_def)
  show ?thesis unfolding eq sm
    by (rule loader_outcome) (rule for_each_appends [OF table_upds(5) load_weather_row_appends])
qed

lemma div_shift: "(Suc n + k) div Suc k = Suc (n div Suc k)"
proof -
  have "(n + Suc k) div Suc k = n div Suc k + 1" by (rule div_add_self2) simp
  then show ?thesis by simp
qed

lemma iloc_step_length: "length (iloc_step (Suc k) xs) = (length xs + k) div Suc k"
proof (induction "Suc k" xs rule: iloc_step.induct)
  case 1
  then show ?case by simp
next
  case (2 x xs)
  have IH: "length (iloc_step (Suc k) (drop k xs)) = (length (drop k xs) + k) div Suc k"
    using 2 by simp
  have "(length (drop k xs) + k) div Suc k = length xs div Suc k"
  proof (cases "k \<le> length xs")
    case True
    then show ?thesis by simp
  next
    case False
    then show ?thesis by simp
  qed
  then have "length (iloc_step (Suc k) (x # xs)) = Suc (length xs div Suc k)"
    using IH by simp
  also have "\<dots> = (Suc (length xs) + k) div Suc k" by (rule div_shift [symmetric])
  finally show ?case by simp
qed

lemma iloc_step_nth:
  "i < length (iloc_step (Suc k) xs) \<Longrightarrow> iloc_step (Suc k) xs ! i = xs ! (Suc k * i)"
proof (induction "Suc k" xs arbitrary: i rule: iloc_step.induct)
  case 1
  then show ?case by simp
next
  case (2 x xs)
  have IH: "iloc_step (Suc k) (drop k xs) ! j = drop k xs ! (Suc k * j)"
    if "j < length (iloc_step (Suc k) (drop k xs))" for j
    using 2(1) [of j] that by simp
  show ?case
  proof (cases i)
    case 0
    then show ?thesis by simp
  next
    case (Suc j)
    then have j: "j < length (iloc_step (Suc k) (drop k xs))" using 2(2) by simp
    then have "Suc j \<le> (length (drop k xs) + k) div Suc k"
      by (simp add: iloc_step_length)
    then have "Suc j * Suc k \<le> length (drop k xs) + k"
      by (simp add: less_eq_div_iff_mult_less_eq)
    then have lt: "Suc k * j < length (drop k xs)"
      by (simp add: algebra_simps)
    have "iloc_step (Suc k) (x # xs) ! i = iloc_step (Suc k) (drop k xs) ! j"
      using Suc by simp
    also have "\<dots> = drop k xs ! (Suc k * j)" using IH [OF j] .
    also have "\<dots> = xs ! (k + Suc k * j)" using lt by simp
    also have "\<dots> = (x # xs) ! (Suc k * i)" using Suc by (simp add: algebra_simps)
    finally show ?thesis .
  qed
qed

lemma iloc_step_10:
  "iloc_step 10 xs = map (\<lambda>i. xs ! (10 * i)) [0..<(length xs + 9) div 10]"
proof (rule nth_equalityI)
  show "length (iloc_step 10 xs) = length (map (\<lambda>i. xs ! (10 * i)) [0..<(length xs + 9) div 10])"
    using iloc_step_length [of 9 xs] by simp
next
  fix i assume "i < length (iloc_step 10 xs)"
  then show "iloc_step 10 xs ! i = map (\<lambda>i. xs ! (10 * i)) [0..<(length xs + 9) div 10] ! i"
    using iloc_step_nth [of i 9 xs] iloc_step_length [of 9 xs] by simp
qed

lemma loader_ok_effect:
  assumes "table_upd upd" "loader_ok upd P s rep s'" "cur s = saved s"
  shows "cur s' = saved s'
    \<and> (\<exists>new. saved s' = upd (\<lambda>rows. rows @ new) (saved s)
          \<and> list_all (P (drivers (saved s))) new)"
proof (cases rep)
  case (Loaded n)
  then show ?thesis using assms by (auto simp: loader_ok_def)
next
  case (Failed e)
  then have "s' = s\<lparr>cur := saved s\<rparr>" using assms by (simp add: loader_ok_def)
  moreover have "saved s = upd (\<lambda>rows. rows @ []) (saved s)"
    using assms(1) by (simp add: table_upd_def)
  ultimately show ?thesis by (auto intro!: exI [of _ "[]"])
next
  case NoWeatherData
  then have "s' = s" using assms by (simp add: loader_ok_def)
  moreover have "saved s = upd (\<lambda>rows. rows @ []) (saved s)"
    using assms(1) by (simp add: table_upd_def)
  ultimately show ?thesis using assms(3) by (auto intro!: exI [of _ "[]"])
qed (use assms in \<open>simp_all add: loader_ok_def\<close>)

lemma loader_ok_failed: "loader_ok upd P s (Failed e) s' \<Longrightarrow> s' = s\<lparr>cur := saved s\<rparr>"
  by (simp add: loader_ok_def)

lemma loader_failure:
  assumes body: "\<And>res s'. body s = (res, s') \<Longrightarrow> appends upd P s s'"
      and raised: "fst (bind body (\<lambda>_. commit) s) = Inl e"
  shows "try_except (bind body (\<lambda>n. bind commit (\<lambda>_. ret (Loaded (k n)))))
            (\<lambda>e. bind rollback (\<lambda>_. ret (Failed e))) s = (Inr (Failed e), s\<lparr>cur := saved s\<rparr>)"
proof -
  obtain r1 s1 where b: "body s = (r1, s1)" by (cases "body s")
  from body [OF b] have n: "saved s1 = saved s" unfolding appends_def by blast
  have rb: "s1\<lparr>cur := saved s1\<rparr> = s\<lparr>cur := saved s\<rparr>"
    using n by (cases s, cases s1) simp
  show ?thesis
  proof (cases r1)
    case (Inl e')
    then show ?thesis using b rb raised
      by (simp add: io_defs rollback_def)
  next
    case (Inr m)
    then show ?thesis using b rb raised
      by (simp add: io_defs commit_def rollback_def split: if_splits)
  qed
qed

lemma qualifying_failure:
  assumes "fst (bind (for_each (load_qualifying_row rt race_entry) (results quali)) (\<lambda>_. commit) s) = Inl e"
  shows "load_qualifying_results rt race_entry quali s = (Inr (Failed e), s\<lparr>cur := saved s\<rparr>)"
  unfolding load_qualifying_results_def
  by (rule loader_failure [OF _ assms])
     (rule for_each_appends [OF table_upds(1) load_qualifying_row_appends])

lemma race_results_failure:
  assumes "fst (bind (for_each (load_race_result_row rt race_entry) (results session)) (\<lambda>_. commit) s) = Inl e"
  shows "load_race_results rt race_entry session s = (Inr (Failed e), s\<lparr>cur := saved s\<rparr>)"
  unfolding load_race_results_def
  by (rule loader_failure [OF _ assms])
     (rule for_each_appends [OF table_upds(2) load_race_result_row_appends])

lemma lap_batch_appends:
  assumes "bind (lift (column (results race_session) ''Abbreviation''))
     (\<lambda>all_drivers. for_each (load_driver_laps rt race_entry race_session) all_drivers) s = (res, s')"
  shows "appends lap_times_update (built_lap_time rt race_entry (laps race_session)) s s'"
proof (cases "column (results race_session) ''Abbreviation''")
  case (Inl e)
  then show ?thesis using assms appends_refl [OF table_upds(3)] by (simp add: io_defs)
next
  case (Inr all_drivers)
  then have fe: "for_each (load_driver_laps rt race_entry race_session) all_drivers s = (res, s')"
    using assms by (simp add: io_defs)
  show ?thesis
  proof (rule for_each_appends [OF table_upds(3) _ fe])
    fix x t r t' assume "load_driver_laps rt race_entry race_session x t = (r, t')"
    then show "appends lap_times_update (built_lap_time rt race_entry (laps race_session)) t t'"
      by (rule load_driver_laps_appends)
  qed
qed

lemma pit_batch_appends:
  assumes "bind (lift (pit_out_laps (laps race_session)))
     (\<lambda>pit_stops. for_each (load_pit_stop_row rt race_entry) pit_stops) s = (res, s')"
  shows "appends pit_stops_update (built_pit_stop rt race_entry (laps race_session)) s s'"
proof (cases "pit_out_laps (laps race_session)")
  case (Inl e)
  then show ?thesis using assms appends_refl [OF table_upds(4)] by (simp add: io_defs)
next
  case (Inr ls)
  then have fe: "for_each (load_pit_stop_row rt race_entry) ls s = (res, s')"
    using assms by (simp add: io_defs)
  show ?thesis
  proof (rule for_each_appends [OF table_upds(4) _ fe])
    fix x t r t' assume "x \<in> set ls" "load_pit_stop_row rt race_entry x t = (r, t')"
    then show "appends pit_stops_update (built_pit_stop rt race_entry (laps race_session)) t t'"
      using load_pit_stop_row_appends [of x "laps race_session"] pit_out_laps_rows [OF Inr]
      by blast
  qed
qed

lemma lap_times_failure:
  assumes "fst (bind (lift (column (results session) ''Abbreviation'')) (\<lambda>all_drivers.
             bind (for_each (load_driver_laps rt race_entry session) all_drivers) (\<lambda>_. commit)) s)
           = Inl e"
  shows "load_lap_times_sample rt race_entry session s = (Inr (Failed e), s\<lparr>cur := saved s\<rparr>)"
proof -
  let ?body = "bind (lift (column (results session) ''Abbreviation''))
     (\<lambda>all_drivers. for_each (load_driver_laps rt race_entry session) all_drivers)"
  have eq: "load_lap_times_sample rt race_entry session =
      try_except (bind ?body (\<lambda>n. bind commit (\<lambda>_. ret (Loaded n))))
        (\<lambda>e. bind rollback (\<lambda>_. ret (Failed e)))"
    by (simp add: load_lap_times_sample_def bind_assoc)
  have raised: "fst (bind ?body (\<lambda>_. commit) s) = Inl e"
    using assms by (simp add: bind_assoc)
  show ?thesis unfolding eq
    by (rule loader_failure [OF _ raised]) (rule lap_batch_appends)
qed

lemma pit_stops_failure:
  assumes "fst (bind (lift (pit_out_laps (laps session))) (\<lambda>pit_stops.
             bind (for_each (load_pit_stop_row rt race_entry) pit_stops) (\<lambda>_. commit)) s)
           = Inl e"
  shows "load_pit_stops rt race_entry session s = (Inr (Failed e), s\<lparr>cur := saved s\<rparr>)"
proof -
  let ?body = "bind (lift (pit_out_laps (laps session)))
     (\<lambda>pit_stops. for_each (load_pit_stop_row rt race_entry) pit_stops)"
  have eq: "load_pit_stops rt race_entry session =
      try_except (bind ?body (\<lambda>n. bind commit (\<lambda>_. ret (Loaded n))))
        (\<lambda>e. bind rollback (\<lambda>_. ret (Failed e)))"
    by (simp add: load_pit_stops_def bind_assoc)
  have raised: "fst (bind ?body (\<lambda>_. commit) s) = Inl e"
    using assms by (simp add: bind_assoc)
  show ?thesis unfolding eq
    by (rule loader_failure [OF _ raised]) (rule pit_batch_appends)
qed

lemma weather_failure:
  assumes "weather session = Some weather_data"
      and "fst (bind (for_each (load_weather_row rt race_entry) (iloc_step 10 weather_data))
             (\<lambda>_. commit) s) = Inl e"
  shows "load_weather_data rt race_entry session s = (Inr (Failed e), s\<lparr>cur := saved s\<rparr>)"
proof -
  have eq: "load_weather_data rt race_entry session =
      try_except (bind (for_each (load_weather_row rt race_entry) (iloc_step 10 weather_data))
          (\<lambda>n. bind commit (\<lambda>_. ret (Loaded n))))
        (\<lambda>e. bind rollback (\<lambda>_. ret (Failed e)))"
    using assms(1) by (simp add: load_weather_data_def)
  show ?thesis unfolding eq
    by (rule loader_failure [OF _ assms(2)])
       (rule for_each_appends [OF table_upds(5) load_weather_row_appends])
qed

text \<open>
  Claim C4: each of the five sub-loaders returns a report and never raises. Whatever is
  raised during its batch (by a pass of its loop, by what prepares the loop or by the
  commit) makes it report that failure and roll the session back to the last commit, so
  the store is as before the batch and nothing of the batch is left pending; a report of
  failure always comes with that rollback. In the sequence of the weekend, a failure of
  the weather loader leaves the qualifying results, race results and lap times committed
  before it in the store.
\<close>

theorem sub_loaders_isolate_failures:
  "(\<exists>rep s'. load_qualifying_results rt race_entry quali s = (Inr rep, s')
       \<and> (\<forall>e. rep = Failed e \<longrightarrow> s' = s\<lparr>cur := saved s\<rparr>))
   \<and> (\<forall>e. fst (bind (for_each (load_qualifying_row rt race_entry) (results quali))
                 (\<lambda>_. commit) s) = Inl e
         \<longrightarrow> load_qualifying_results rt race_entry quali s
               = (Inr (Failed e), s\<lparr>cur := saved s\<rparr>))
   \<and> (\<exists>rep s'. load_race_results rt race_entry session s = (Inr rep, s')
       \<and> (\<forall>e. rep = Failed e \<longrightarrow> s' = s\<lparr>cur := saved s\<rparr>))
   \<and> (\<forall>e. fst (bind (for_each (load_race_result_row rt race_entry) (results session))
                 (\<lambda>_. commit) s) = Inl e
         \<longrightarrow> load_race_results rt race_entry session s
               = (Inr (Failed e), s\<lparr>cur := saved s\<rparr>))
   \<and> (\<exists>rep s'. load_lap_times_sample rt race_entry session s = (Inr rep, s')
       \<and> (\<forall>e. rep = Failed e \<longrightarrow> s' = s\<lparr>cur := saved s\<rparr>))
   \<and> (\<forall>e. fst (bind (lift (column (results session) ''Abbreviation'')) (\<lambda>all_drivers.
                 bind (for_each (load_driver_laps rt race_entry session) all_drivers)
                   (\<lambda>_. commit)) s) = Inl e
         \<longrightarrow> load_lap_times_sample rt race_entry session s
               = (Inr (Failed e), s\<lparr>cur := saved s\<rparr>))
   \<and> (\<exists>rep s'. load_pit_stops rt race_entry session s = (Inr rep, s')
       \<and> (\<forall>e. rep = Failed e \<longrightarrow> s' = s\<lparr>cur := saved s\<rparr>))
   \<and> (\<forall>e. fst (bind (lift (pit_out_laps (laps session))) (\<lambda>pit_stops.
                 bind (for_each (load_pit_stop_row rt race_entry) pit_stops)
                   (\<lambda>_. commit)) s) = Inl e
         \<longrightarrow> load_pit_stops rt race_entry session s
               = (Inr (Failed e), s\<lparr>cur := saved s\<rparr>))
   \<and> (\<exists>rep s'. load_weather_data rt race_entry session s = (Inr rep, s')
       \<and> (\<forall>e. rep = Failed e \<longrightarrow> s' = s\<lparr>cur := saved s\<rparr>))
   \<and> (\<forall>e weather_data. weather session = Some weather_data
         \<and> fst (bind (for_each (load_weather_row rt race_entry) (iloc_step 10 weather_data))
                 (\<lambda>_. commit) s) = Inl e
         \<longrightarrow> load_weather_data rt race_entry session s
               = (Inr (Failed e), s\<lparr>cur := saved s\<rparr>))
   \<and> (cur s0 = saved s0
       \<and> load_qualifying_results rt race_entry quali s0 = (r1, s1)
       \<and> load_race_results rt race_entry session s1 = (r2, s2)
       \<and> load_lap_times_sample rt race_entry session s2 = (r3, s3)
       \<and> load_pit_stops rt race_entry session s3 = (r4, s4)
       \<and> load_weather_data rt race_entry session s4 = (Inr (Failed e), s5)
       \<longrightarrow> qualifying_results (saved s5) = qualifying_results (saved s1)
         \<and> race_results (saved s5) = race_results (saved s2)
         \<and> lap_times (saved s5) = lap_times (saved s3)
         \<and> weather_rows (saved s5) = weather_rows (saved s0))"
proof -
  have q: "\<exists>rep s'. load_qualifying_results rt race_entry quali s = (Inr rep, s')
       \<and> (\<forall>e. rep = Failed e \<longrightarrow> s' = s\<lparr>cur := saved s\<rparr>)"
    using load_qualifying_results_outcome [of rt race_entry quali s] loader_ok_failed by blast
  have r: "\<exists>rep s'. load_race_results rt race_entry session s = (Inr rep, s')
       \<and> (\<forall>e. rep = Failed e \<longrightarrow> s' = s\<lparr>cur := saved s\<rparr>)"
    using load_race_results_outcome [of rt race_entry session s] loader_ok_failed by blast
  have l: "\<exists>rep s'. load_lap_times_sample rt race_entry session s = (Inr rep, s')
       \<and> (\<forall>e. rep = Failed e \<longrightarrow> s' = s\<lparr>cur := saved s\<rparr>)"
    using load_lap_times_sample_outcome [of rt race_entry session s] loader_ok_failed by blast
  have p: "\<exists>rep s'. load_pit_stops rt race_entry session s = (Inr rep, s')
       \<and> (\<forall>e. rep = Failed e \<longrightarrow> s' = s\<lparr>cur := saved s\<rparr>)"
    using load_pit_stops_outcome [of rt race_entry session s] loader_ok_failed by blast
  have w: "\<exists>rep s'. load_weather_data rt race_entry session s = (Inr rep, s')
       \<and> (\<forall>e. rep = Failed e \<longrightarrow> s' = s\<lparr>cur := saved s\<rparr>)"
    using load_weather_data_outcome [of rt race_entry session s] loader_ok_failed by blast
  have qf: "\<forall>e. fst (bind (for_each (load_qualifying_row rt race_entry) (results quali))
                 (\<lambda>_. commit) s) = Inl e
         \<longrightarrow> load_qualifying_results rt race_entry quali s
               = (Inr (Failed e), s\<lparr>cur := saved s\<rparr>)"
    using qualifying_failure by blast
  have rf: "\<forall>e. fst (bind (for_each (load_race_result_row rt race_entry) (results session))
                 (\<lambda>_. commit) s) = Inl e
         \<longrightarrow> load_race_results rt race_entry session s
               = (Inr (Failed e), s\<lparr>cur := saved s\<rparr>)"
    using race_results_failure by blast
  have lf: "\<forall>e. fst (bind (lift (column (results session) ''Abbreviation'')) (\<lambda>all_drivers.
                 bind (for_each (load_driver_laps rt race_entry session) all_drivers)
                   (\<lambda>_. commit)) s) = Inl e
         \<longrightarrow> load_lap_times_sample rt race_entry session s
               = (Inr (Failed e), s\<lparr>cur := saved s\<rparr>)"
    using lap_times_failure by blast
  have pf: "\<forall>e. fst (bind (lift (pit_out_laps (laps session))) (\<lambda>pit_stops.
                 bind (for_each (load_pit_stop_row rt race_entry) pit_stops)
                   (\<lambda>_. commit)) s) = Inl e
         \<longrightarrow> load_pit_stops rt race_entry session s
               = (Inr (Failed e), s\<lparr>cur := saved s\<rparr>)"
    using pit_stops_failure by blast
  have wf: "\<forall>e weather_data. weather session = Some weather_data
         \<and> fst (bind (for_each (load_weather_row rt race_entry) (iloc_step 10 weather_data))
                 (\<lambda>_. commit) s) = Inl e
         \<longrightarrow> load_weather_data rt race_entry session s
               = (Inr (Failed e), s\<lparr>cur := saved s\<rparr>)"
    using weather_failure by blast
  have seq: "qualifying_results (saved s5) = qualifying_results (saved s1)
         \<and> race_results (saved s5) = race_results (saved s2)
         \<and> lap_times (saved s5) = lap_times (saved s3)
         \<and> weather_rows (saved s5) = weather_rows (saved s0)"
    if c0: "cur s0 = saved s0"
      and 1: "load_qualifying_results rt race_entry quali s0 = (r1, s1)"
      and 2: "load_race_results rt race_entry session s1 = (r2, s2)"
      and 3: "load_lap_times_sample rt race_entry session s2 = (r3, s3)"
      and 4: "load_pit_stops rt race_entry session s3 = (r4, s4)"
      and 5: "load_weather_data rt race_entry session s4 = (Inr (Failed e), s5)"
  proof -
    from load_qualifying_results_outcome [of rt race_entry quali s0] 1 c0
    obtain n1 where e1: "cur s1 = saved s1"
      "saved s1 = qualifying_results_update (\<lambda>rows. rows @ n1) (saved s0)"
      using loader_ok_effect [OF table_upds(1)] by fastforce
    from load_race_results_outcome [of rt race_entry session s1] 2 e1(1)
    obtain n2 where e2: "cur s2 = saved s2"
      "saved s2 = race_results_update (\<lambda>rows. rows @ n2) (saved s1)"
      using loader_ok_effect [OF table_upds(2)] by fastforce
    from load_lap_times_sample_outcome [of rt race_entry session s2] 3 e2(1)
    obtain n3 where e3: "cur s3 = saved s3"
      "saved s3 = lap_times_update (\<lambda>rows. rows @ n3) (saved s2)"
      using loader_ok_effect [OF table_upds(3)] by fastforce
    from load_pit_stops_outcome [of rt race_entry session s3] 4 e3(1)
    obtain n4 where e4: "cur s4 = saved s4"
      "saved s4 = pit_stops_update (\<lambda>rows. rows @ n4) (saved s3)"
      using loader_ok_effect [OF table_upds(4)] by fastforce
    from load_weather_data_outcome [of rt race_entry session s4] 5
    have e5: "saved s5 = saved s4"
      using loader_ok_failed by fastforce
    show ?thesis by (simp add: e5 e4(2) e3(2) e2(2) e1(2))
  qed
  show ?thesis
    apply (intro conjI)
    subgoal by (rule q)
    subgoal by (rule qf)
    subgoal by (rule r)
    subgoal by (rule rf)
    subgoal by (rule l)
    subgoal by (rule lf)
    subgoal by (rule p)
    subgoal by (rule pf)
    subgoal by (rule w)
    subgoal by (rule wf)
    subgoal using seq by blast
    done
qed

lemmas example_defs = session_on_def empty_db_def leclerc_db_def leclerc_def race1_def
  monaco_quali_def monaco_race_def db1_def db2_def db3_def db4_def example_rt_def

lemmas eval_defs = io_defs sbind_def getitem_def row_get_def row_get_default_def
  pd_notna_def py_str_def int_if_notna_def float_if_notna_def str_if_notna_def
  convert_timedelta_to_seconds_def integrity_ok_def commit_def rollback_def
  query_driver_cell_def query_team_by_name_def

lemma example_quali:
  "load_qualifying_results example_rt race1 monaco_quali (session_on leclerc_db)
     = (Inr (Loaded 2), session_on db1)"
  by (simp add: example_defs eval_defs load_qualifying_results_def load_qualifying_row_def
      qualifying_result_of_def add_qualifying_result_def)

lemma example_results:
  "load_race_results example_rt race1 monaco_race (session_on db1)
     = (Inr (Loaded 1), session_on db2)"
  by (simp add: example_defs eval_defs load_race_results_def load_race_result_row_def
      race_result_of_def points_of_def add_race_result_def)

lemma example_laps:
  "load_lap_times_sample example_rt race1 monaco_race (session_on db2)
     = (Inr (Loaded 2), session_on db3)"
  by (simp add: example_defs eval_defs load_lap_times_sample_def load_driver_laps_def
      load_lap_row_def lap_time_of_def tyre_life_of_def pick_driver_def add_lap_time_def)

lemma example_pits:
  "load_pit_stops example_rt race1 monaco_race (session_on db3)
     = (Inr (Loaded 1), session_on db4)"
  by (simp add: example_defs eval_defs load_pit_stops_def load_pit_stop_row_def
      pit_stop_of_def pit_out_laps_def add_pit_stop_def)

lemma example_weather:
  "load_weather_data example_rt race1 monaco_race (session_on db4)
     = (Inr (Failed ValueError), session_on db4)"
  by (simp add: example_defs eval_defs load_weather_data_def load_weather_row_def
      weather_entry_of_def add_weather_def)

lemma example_broken_quali_loop:
  "for_each (load_qualifying_row example_rt race1) (results broken_quali) (session_on leclerc_db)
     = (Inl KeyError, \<lparr>cur = db1, saved = leclerc_db\<rparr>)"
  by (simp add: example_defs eval_defs broken_quali_def load_qualifying_row_def
      qualifying_result_of_def add_qualifying_result_def)

lemma example_broken_quali:
  "fst (bind (for_each (load_qualifying_row example_rt race1) (results broken_quali))
          (\<lambda>_. commit) (session_on leclerc_db)) = Inl KeyError"
  by (simp add: example_broken_quali_loop bind_def)

lemma example_broken_race:
  "fst (bind (for_each (load_race_result_row example_rt race1) (results broken_race))
          (\<lambda>_. commit) (session_on leclerc_db)) = Inl ValueError"
  by (simp add: example_defs eval_defs broken_race_def load_race_result_row_def
      race_result_of_def points_of_def add_race_result_def)

lemma example_broken_laps:
  "fst (bind (lift (column (results broken_race) ''Abbreviation'')) (\<lambda>all_drivers.
          bind (for_each (load_driver_laps example_rt race1 broken_race) all_drivers)
            (\<lambda>_. commit)) (session_on leclerc_db)) = Inl ValueError
   \<and> length (lap_times (cur (snd (for_each (load_driver_laps example_rt race1 broken_race)
          [PyStr ''LEC'', PyStr ''LEC''] (session_on leclerc_db))))) = 1"
  by (simp add: example_defs eval_defs broken_race_def load_driver_laps_def
      load_lap_row_def lap_time_of_def tyre_life_of_def pick_driver_def add_lap_time_def)

lemma example_broken_pits:
  "fst (bind (lift (pit_out_laps (laps broken_race))) (\<lambda>pit_stops.
          bind (for_each (load_pit_stop_row example_rt race1) pit_stops)
            (\<lambda>_. commit)) (session_on leclerc_db)) = Inl ValueError"
  by (simp add: example_defs eval_defs broken_race_def load_pit_stop_row_def
      pit_stop_of_def pit_out_laps_def add_pit_stop_def)

lemma broken_samples:
  "iloc_step 10 (replicate 10 [(''AirTemp'', PyFloat 21)] @ [[(''AirTemp'', PyStr ''n/a'')]])
     = [[(''AirTemp'', PyFloat 21)], [(''AirTemp'', PyStr ''n/a'')]]"
  by (simp add: eval_nat_numeral)

lemma example_broken_weather:
  "fst (bind (for_each (load_weather_row example_rt race1)
          (iloc_step 10 (replicate 10 [(''AirTemp'', PyFloat 21)] @ [[(''AirTemp'', PyStr ''n/a'')]])))
          (\<lambda>_. commit) (session_on leclerc_db)) = Inl ValueError
   \<and> length (weather_rows (cur (snd (for_each (load_weather_row example_rt race1)
          (iloc_step 10 (replicate 10 [(''AirTemp'', PyFloat 21)] @ [[(''AirTemp'', PyStr ''n/a'')]]))
          (session_on leclerc_db))))) = 1"
  unfolding broken_samples
  by (simp add: example_defs eval_defs load_weather_row_def weather_entry_of_def
      add_weather_def rainfall_of_def)

theorem sub_loaders_isolate_failures_witness:
  "cur (session_on leclerc_db) = saved (session_on leclerc_db)
   \<and> load_qualifying_results example_rt race1 monaco_quali (session_on leclerc_db)
       = (Inr (Loaded 2), session_on db1)
   \<and> load_race_results example_rt race1 monaco_race (session_on db1)
       = (Inr (Loaded 1), session_on db2)
   \<and> load_lap_times_sample example_rt race1 monaco_race (session_on db2)
       = (Inr (Loaded 2), session_on db3)
   \<and> load_pit_stops example_rt race1 monaco_race (session_on db3)
       = (Inr (Loaded 1), session_on db4)
   \<and> load_weather_data example_rt race1 monaco_race (session_on db4)
       = (Inr (Failed ValueError), session_on db4)
   \<and> qualifying_results (saved (session_on db4)) = qualifying_results (saved (session_on db1))
   \<and> race_results (saved (session_on db4)) = race_results (saved (session_on db2))
   \<and> lap_times (saved (session_on db4)) = lap_times (saved (session_on db3))
   \<and> weather_rows (saved (session_on db4)) = weather_rows (saved (session_on leclerc_db))
   \<and> for_each (load_qualifying_row example_rt race1) (results broken_quali)
         (session_on leclerc_db) = (Inl KeyError, \<lparr>cur = db1, saved = leclerc_db\<rparr>)
   \<and> load_qualifying_results example_rt race1 broken_quali (session_on leclerc_db)
       = (Inr (Failed KeyError), session_on leclerc_db)
   \<and> fst (bind (for_each (load_race_result_row example_rt race1) (results broken_race))
          (\<lambda>_. commit) (session_on leclerc_db)) = Inl ValueError
   \<and> load_race_results example_rt race1 broken_race (session_on leclerc_db)
       = (Inr (Failed ValueError), session_on leclerc_db)
   \<and> fst (bind (lift (column (results broken_race) ''Abbreviation'')) (\<lambda>all_drivers.
          bind (for_each (load_driver_laps example_rt race1 broken_race) all_drivers)
            (\<lambda>_. commit)) (session_on leclerc_db)) = Inl ValueError
   \<and> load_lap_times_sample example_rt race1 broken_race (session_on leclerc_db)
       = (Inr (Failed ValueError), session_on leclerc_db)
   \<and> fst (bind (lift (pit_out_laps (laps broken_race))) (\<lambda>pit_stops.
          bind (for_each (load_pit_stop_row example_rt race1) pit_stops)
            (\<lambda>_. commit)) (session_on leclerc_db)) = Inl ValueError
   \<and> load_pit_stops example_rt race1 broken_race (session_on leclerc_db)
       = (Inr (Failed ValueError), session_on leclerc_db)
   \<and> length (weather_rows (cur (snd (for_each (load_weather_row example_rt race1)
          (iloc_step 10 (replicate 10 [(''AirTemp'', PyFloat 21)] @ [[(''AirTemp'', PyStr ''n/a'')]]))
          (session_on leclerc_db))))) = 1
   \<and> load_weather_data example_rt race1 broken_race (session_on leclerc_db)
       = (Inr (Failed ValueError), session_on leclerc_db)"
proof -
  have c: "cur (session_on leclerc_db) = saved (session_on leclerc_db)"
    by (simp add: session_on_def)
  have rolled: "(session_on leclerc_db)\<lparr>cur := saved (session_on leclerc_db)\<rparr> = session_on leclerc_db"
    by (simp add: session_on_def)
  have wd: "weather broken_race
      = Some (replicate 10 [(''AirTemp'', PyFloat 21)] @ [[(''AirTemp'', PyStr ''n/a'')]])"
    by (simp add: broken_race_def)
  from sub_loaders_isolate_failures [of example_rt race1 monaco_quali "session_on leclerc_db"
      monaco_race "session_on leclerc_db" "Inr (Loaded 2)" "session_on db1"
      "Inr (Loaded 1)" "session_on db2" "Inr (Loaded 2)" "session_on db3"
      "Inr (Loaded 1)" "session_on db4" ValueError "session_on db4"]
    c example_quali example_results example_laps example_pits example_weather
  have kept: "qualifying_results (saved (session_on db4)) = qualifying_results (saved (session_on db1))
   \<and> race_results (saved (session_on db4)) = race_results (saved (session_on db2))
   \<and> lap_times (saved (session_on db4)) = lap_times (saved (session_on db3))
   \<and> weather_rows (saved (session_on db4)) = weather_rows (saved (session_on leclerc_db))"
    by blast
  note t = sub_loaders_isolate_failures [of example_rt race1 broken_quali
      "session_on leclerc_db" broken_race]
  note c2 = t [THEN conjunct2]
  note c4 = c2 [THEN conjunct2, THEN conjunct2]
  note c6 = c4 [THEN conjunct2, THEN conjunct2]
  note c8 = c6 [THEN conjunct2, THEN conjunct2]
  note c10 = c8 [THEN conjunct2, THEN conjunct2]
  have fq: "load_qualifying_results example_rt race1 broken_quali (session_on leclerc_db)
       = (Inr (Failed KeyError), session_on leclerc_db)"
    using c2 [THEN conjunct1, rule_format, OF example_broken_quali] rolled by simp
  have fr: "load_race_results example_rt race1 broken_race (session_on leclerc_db)
       = (Inr (Failed ValueError), session_on leclerc_db)"
    using c4 [THEN conjunct1, rule_format, OF example_broken_race] rolled by simp
  have fl: "load_lap_times_sample example_rt race1 broken_race (session_on leclerc_db)
       = (Inr (Failed ValueError), session_on leclerc_db)"
    using c6 [THEN conjunct1, rule_format, OF example_broken_laps [THEN conjunct1]] rolled
    by simp
  have fp: "load_pit_stops example_rt race1 broken_race (session_on leclerc_db)
       = (Inr (Failed ValueError), session_on leclerc_db)"
    using c8 [THEN conjunct1, rule_format, OF example_broken_pits] rolled by simp
  have fw: "load_weather_data example_rt race1 broken_race (session_on leclerc_db)
       = (Inr (Failed ValueError), session_on leclerc_db)"
    using c10 [THEN conjunct1, rule_format, OF conjI [OF wd example_broken_weather [THEN conjunct1]]]
      rolled by simp
  show ?thesis
    using c example_quali example_results example_laps example_pits example_weather
      kept [THEN conjunct1] kept [THEN conjunct2, THEN conjunct1]
      kept [THEN conjunct2, THEN conjunct2, THEN conjunct1]
      kept [THEN conjunct2, THEN conjunct2, THEN conjunct2]
      example_broken_quali_loop fq example_broken_race fr example_broken_laps [THEN conjunct1] fl
      example_broken_pits fp example_broken_weather [THEN conjunct2] fw
    by (intro conjI)
qed

lemma sbind_Inr: "sbind m f = Inr y \<longleftrightarrow> (\<exists>x. m = Inr x \<and> f x = Inr y)"
  by (cases m) (simp_all add: sbind_def)

lemma qualifying_result_of_fields:
  assumes "qualifying_result_of rt race_entry d r = Inr q"
  shows "qr_driver_id q = driver_pk d" "qr_race_id q = race_pk race_entry"
    "q1_time q = seconds_of (row_get r ''Q1'')" "q2_time q = seconds_of (row_get r ''Q2'')"
    "q3_time q = seconds_of (row_get r ''Q3'')"
  using assms
  by (auto simp: qualifying_result_of_def sbind_Inr convert_scalar seconds_of_def)

lemma race_result_of_fields:
  assumes "race_result_of rt race_entry d t r = Inr x"
  shows "rr_driver_id x = driver_pk d" "rr_race_id x = race_pk race_entry"
    "points x \<noteq> None" "pd_isna (row_get r ''Points'') \<Longrightarrow> points x = Some (Finite 0)"
  using assms
  by (auto simp: race_result_of_def points_of_def sbind_Inr getitem_def row_get_def
      row_get_default_def pd_notna_def split: option.splits if_splits)

lemma lap_time_of_fields:
  assumes "lap_time_of rt race_entry d lap = Inr l"
  shows "lt_driver_id l = driver_pk d" "lt_race_id l = race_pk race_entry"
    "lt_lap_time l = seconds_of (row_get lap ''LapTime'')"
  using assms
  by (auto simp: lap_time_of_def sbind_Inr convert_scalar seconds_of_def)

lemma pit_stop_of_fields:
  assumes "pit_stop_of rt race_entry d lap = Inr p"
  shows "ps_driver_id p = driver_pk d" "ps_race_id p = race_pk race_entry"
    "pit_duration p = None"
  using assms
  by (auto simp: pit_stop_of_def sbind_Inr)

lemma load_qualifying_results_effect:
  assumes "cur s = saved s" "load_qualifying_results rt race_entry session s = (res, s')"
  shows "cur s' = saved s' \<and> (\<exists>new.
      saved s' = (saved s)\<lparr>qualifying_results := qualifying_results (saved s) @ new\<rparr>
      \<and> list_all (built_qualifying rt race_entry (results session) (drivers (saved s))) new)"
  using load_qualifying_results_outcome [of rt race_entry session s] assms
    loader_ok_effect [OF table_upds(1), of _ s _ s']
  by (fastforce simp: append_upds)

lemma load_race_results_effect:
  assumes "cur s = saved s" "load_race_results rt race_entry session s = (res, s')"
  shows "cur s' = saved s' \<and> (\<exists>new.
      saved s' = (saved s)\<lparr>race_results := race_results (saved s) @ new\<rparr>
      \<and> list_all (built_race_result rt race_entry (results session) (drivers (saved s))) new)"
  using load_race_results_outcome [of rt race_entry session s] assms
    loader_ok_effect [OF table_upds(2), of _ s _ s']
  by (fastforce simp: append_upds)

lemma load_lap_times_sample_effect:
  assumes "cur s = saved s" "load_lap_times_sample rt race_entry session s = (res, s')"
  shows "cur s' = saved s' \<and> (\<exists>new.
      saved s' = (saved s)\<lparr>lap_times := lap_times (saved s) @ new\<rparr>
      \<and> list_all (built_lap_time rt race_entry (laps session) (drivers (saved s))) new)"
  using load_lap_times_sample_outcome [of rt race_entry session s] assms
    loader_ok_effect [OF table_upds(3), of _ s _ s']
  by (fastforce simp: append_upds)

lemma load_pit_stops_effect:
  assumes "cur s = saved s" "load_pit_stops rt race_entry session s = (res, s')"
  shows "cur s' = saved s' \<and> (\<exists>new.
      saved s' = (saved s)\<lparr>pit_stops := pit_stops (saved s) @ new\<rparr>
      \<and> list_all (built_pit_stop rt race_entry (laps session) (drivers (saved s))) new)"
  using load_pit_stops_outcome [of rt race_entry session s] assms
    loader_ok_effect [OF table_upds(4), of _ s _ s']
  by (fastforce simp: append_upds)

lemma load_weather_data_effect:
  assumes "cur s = saved s" "load_weather_data rt race_entry session s = (res, s')"
  shows "cur s' = saved s' \<and> (\<exists>new.
      saved s' = (saved s)\<lparr>weather_rows := weather_rows (saved s) @ new\<rparr>
      \<and> list_all (built_weather rt race_entry (sampled session) (drivers (saved s))) new)"
  using load_weather_data_outcome [of rt race_entry session s] assms
    loader_ok_effect [OF table_upds(5), of _ s _ s']
  by (fastforce simp: append_upds)

lemma built_qualifying_driver:
  "built_qualifying rt race_entry rows ds q \<Longrightarrow> qr_driver_id q \<in> driver_pk ` set ds"
  unfolding built_qualifying_def using qualifying_result_of_fields(1) by blast

lemma built_race_result_driver:
  "built_race_result rt race_entry rows ds x \<Longrightarrow> rr_driver_id x \<in> driver_pk ` set ds"
  unfolding built_race_result_def using race_result_of_fields(1) by blast

lemma built_lap_time_driver:
  "built_lap_time rt race_entry rows ds x \<Longrightarrow> lt_driver_id x \<in> driver_pk ` set ds"
  unfolding built_lap_time_def using lap_time_of_fields(1) by blast

lemma built_pit_stop_driver:
  "built_pit_stop rt race_entry rows ds x \<Longrightarrow> ps_driver_id x \<in> driver_pk ` set ds"
  unfolding built_pit_stop_def using pit_stop_of_fields(1) by blast

lemma list_all_mono: "list_all P xs \<Longrightarrow> (\<And>x. P x \<Longrightarrow> Q x) \<Longrightarrow> list_all Q xs"
  by (induction xs) auto

text \<open>
  Claim C3: a qualifying result, race result, lap time or pit stop is only written for
  a driver that the lookup by the abbreviation found in the store, and it carries that
  driver's key; a row of the provider whose abbreviation finds no driver is passed over
  and nothing is written for it. So every row that a sub-loader adds to the store refers
  to a driver of the store, as it was when the loader started and as it is afterwards.
\<close>

theorem session_rows_reference_stored_drivers:
  "(getitem r ''Abbreviation'' = Inr abbr \<and> query_driver_cell abbr s = (Inr None, s) \<longrightarrow>
      load_qualifying_row rt race_entry r s = (Inr 0, s)
      \<and> load_race_result_row rt race_entry r s = (Inr 0, s))
   \<and> (query_driver_cell abbr s = (Inr None, s) \<longrightarrow>
      load_driver_laps rt race_entry session abbr s = (Inr 0, s))
   \<and> (getitem r ''Driver'' = Inr abbr \<and> query_driver_cell abbr s = (Inr None, s) \<longrightarrow>
      load_pit_stop_row rt race_entry r s = (Inr 0, s))
   \<and> (cur s = saved s \<and> load_qualifying_results rt race_entry session s = (res1, s1) \<longrightarrow>
      (\<exists>new. saved s1 = (saved s)\<lparr>qualifying_results := qualifying_results (saved s) @ new\<rparr>
         \<and> list_all (\<lambda>q. qr_driver_id q \<in> driver_pk ` set (drivers (saved s))) new))
   \<and> (cur s = saved s \<and> load_race_results rt race_entry session s = (res2, s2) \<longrightarrow>
      (\<exists>new. saved s2 = (saved s)\<lparr>race_results := race_results (saved s) @ new\<rparr>
         \<and> list_all (\<lambda>x. rr_driver_id x \<in> driver_pk ` set (drivers (saved s))) new))
   \<and> (cur s = saved s \<and> load_lap_times_sample rt race_entry session s = (res3, s3) \<longrightarrow>
      (\<exists>new. saved s3 = (saved s)\<lparr>lap_times := lap_times (saved s) @ new\<rparr>
         \<and> list_all (\<lambda>x. lt_driver_id x \<in> driver_pk ` set (drivers (saved s))) new))
   \<and> (cur s = saved s \<and> load_pit_stops rt race_entry session s = (res4, s4) \<longrightarrow>
      (\<exists>new. saved s4 = (saved s)\<lparr>pit_stops := pit_stops (saved s) @ new\<rparr>
         \<and> list_all (\<lambda>x. ps_driver_id x \<in> driver_pk ` set (drivers (saved s))) new))"
proof -
  have a: "load_qualifying_row rt race_entry r s = (Inr 0, s)
      \<and> load_race_result_row rt race_entry r s = (Inr 0, s)"
    if "getitem r ''Abbreviation'' = Inr abbr" "query_driver_cell abbr s = (Inr None, s)"
    using that by (simp add: load_qualifying_row_def load_race_result_row_def io_defs)
  have b: "load_driver_laps rt race_entry session abbr s = (Inr 0, s)"
    if "query_driver_cell abbr s = (Inr None, s)"
    using that by (simp add: load_driver_laps_def io_defs)
  have c: "load_pit_stop_row rt race_entry r s = (Inr 0, s)"
    if "getitem r ''Driver'' = Inr abbr" "query_driver_cell abbr s = (Inr None, s)"
    using that by (simp add: load_pit_stop_row_def io_defs)
  have q: "\<exists>new. saved s1 = (saved s)\<lparr>qualifying_results := qualifying_results (saved s) @ new\<rparr>
         \<and> list_all (\<lambda>q. qr_driver_id q \<in> driver_pk ` set (drivers (saved s))) new"
    if "cur s = saved s" "load_qualifying_results rt race_entry session s = (res1, s1)"
    using load_qualifying_results_effect [OF that] list_all_mono built_qualifying_driver
    by (metis (no_types, lifting))
  have rr: "\<exists>new. saved s2 = (saved s)\<lparr>race_results := race_results (saved s) @ new\<rparr>
         \<and> list_all (\<lambda>x. rr_driver_id x \<in> driver_pk ` set (drivers (saved s))) new"
    if "cur s = saved s" "load_race_results rt race_entry session s = (res2, s2)"
    using load_race_results_effect [OF that] list_all_mono built_race_result_driver
    by (metis (no_types, lifting))
  have l: "\<exists>new. saved s3 = (saved s)\<lparr>lap_times := lap_times (saved s) @ new\<rparr>
         \<and> list_all (\<lambda>x. lt_driver_id x \<in> driver_pk ` set (drivers (saved s))) new"
    if "cur s = saved s" "load_lap_times_sample rt race_entry session s = (res3, s3)"
    using load_lap_times_sample_effect [OF that] list_all_mono built_lap_time_driver
    by (metis (no_types, lifting))
  have p: "\<exists>new. saved s4 = (saved s)\<lparr>pit_stops := pit_stops (saved s) @ new\<rparr>
         \<and> list_all (\<lambda>x. ps_driver_id x \<in> driver_pk ` set (drivers (saved s))) new"
    if "cur s = saved s" "load_pit_stops rt race_entry session s = (res4, s4)"
    using load_pit_stops_effect [OF that] list_all_mono built_pit_stop_driver
    by (metis (no_types, lifting))
  show ?thesis using a b c q rr l p by blast
qed

lemma example_unknown:
  "getitem unknown_row ''Abbreviation'' = Inr (PyStr ''XXX'')"
  "getitem unknown_row ''Driver'' = Inr (PyStr ''XXX'')"
  "query_driver_cell (PyStr ''XXX'') (session_on leclerc_db) = (Inr None, session_on leclerc_db)"
  by (simp_all add: unknown_row_def example_defs eval_defs)

lemma example_quali_race:
  "load_qualifying_results example_rt race1 monaco_race (session_on leclerc_db)
     = (Inr (Loaded 1), session_on (leclerc_db\<lparr>qualifying_results :=
          [\<lparr>qr_race_id = 1, qr_driver_id = 1, qr_position = Some 1,
            q1_time = None, q2_time = None, q3_time = None\<rparr>]\<rparr>))"
  by (simp add: example_defs eval_defs load_qualifying_results_def load_qualifying_row_def
      qualifying_result_of_def add_qualifying_result_def)

lemma example_results_first:
  "load_race_results example_rt race1 monaco_race (session_on leclerc_db)
     = (Inr (Loaded 1), session_on (leclerc_db\<lparr>race_results := race_results db2\<rparr>))"
  by (simp add: example_defs eval_defs load_race_results_def load_race_result_row_def
      race_result_of_def points_of_def add_race_result_def)

lemma example_laps_first:
  "load_lap_times_sample example_rt race1 monaco_race (session_on leclerc_db)
     = (Inr (Loaded 2), session_on (leclerc_db\<lparr>lap_times := lap_times db3\<rparr>))"
  by (simp add: example_defs eval_defs load_lap_times_sample_def load_driver_laps_def
      load_lap_row_def lap_time_of_def tyre_life_of_def pick_driver_def add_lap_time_def)

lemma example_pits_first:
  "load_pit_stops example_rt race1 monaco_race (session_on leclerc_db)
     = (Inr (Loaded 1), session_on (leclerc_db\<lparr>pit_stops := pit_stops db4\<rparr>))"
  by (simp add: example_defs eval_defs load_pit_stops_def load_pit_stop_row_def
      pit_stop_of_def pit_out_laps_def add_pit_stop_def)

theorem session_rows_reference_stored_drivers_witness:
  "getitem unknown_row ''Abbreviation'' = Inr (PyStr ''XXX'')
   \<and> getitem unknown_row ''Driver'' = Inr (PyStr ''XXX'')
   \<and> query_driver_cell (PyStr ''XXX'') (session_on leclerc_db) = (Inr None, session_on leclerc_db)
   \<and> load_qualifying_row example_rt race1 unknown_row (session_on leclerc_db)
       = (Inr 0, session_on leclerc_db)
   \<and> load_race_result_row example_rt race1 unknown_row (session_on leclerc_db)
       = (Inr 0, session_on leclerc_db)
   \<and> load_driver_laps example_rt race1 monaco_race (PyStr ''XXX'') (session_on leclerc_db)
       = (Inr 0, session_on leclerc_db)
   \<and> load_pit_stop_row example_rt race1 unknown_row (session_on leclerc_db)
       = (Inr 0, session_on leclerc_db)
   \<and> cur (session_on leclerc_db) = saved (session_on leclerc_db)
   \<and> load_race_results example_rt race1 monaco_race (session_on leclerc_db)
       = (Inr (Loaded 1), session_on (leclerc_db\<lparr>race_results := race_results db2\<rparr>))
   \<and> (\<exists>new. saved (session_on (leclerc_db\<lparr>race_results := race_results db2\<rparr>))
          = (saved (session_on leclerc_db))\<lparr>race_results :=
              race_results (saved (session_on leclerc_db)) @ new\<rparr>
        \<and> list_all (\<lambda>x. rr_driver_id x \<in> driver_pk ` set (drivers (saved (session_on leclerc_db))))
             new)
   \<and> (\<exists>new. saved (session_on (leclerc_db\<lparr>lap_times := lap_times db3\<rparr>))
          = (saved (session_on leclerc_db))\<lparr>lap_times :=
              lap_times (saved (session_on leclerc_db)) @ new\<rparr>
        \<and> list_all (\<lambda>x. lt_driver_id x \<in> driver_pk ` set (drivers (saved (session_on leclerc_db))))
             new)"
proof -
  have c: "cur (session_on leclerc_db) = saved (session_on leclerc_db)"
    by (simp add: session_on_def)
  from session_rows_reference_stored_drivers [of unknown_row "PyStr ''XXX''"
      "session_on leclerc_db" example_rt race1 monaco_race
      "Inr (Loaded 1)" "session_on (leclerc_db\<lparr>qualifying_results :=
          [\<lparr>qr_race_id = 1, qr_driver_id = 1, qr_position = Some 1,
            q1_time = None, q2_time = None, q3_time = None\<rparr>]\<rparr>)"
      "Inr (Loaded 1)" "session_on (leclerc_db\<lparr>race_results := race_results db2\<rparr>)"
      "Inr (Loaded 2)" "session_on (leclerc_db\<lparr>lap_times := lap_times db3\<rparr>)"
      "Inr (Loaded 1)" "session_on (leclerc_db\<lparr>pit_stops := pit_stops db4\<rparr>)"]
    c example_unknown example_quali_race example_results_first example_laps_first
    example_pits_first
  show ?thesis by blast
qed

text \<open>
  Claim C9: a race result built from a row of the provider whose points are missing
  (None, NaN or NaT) has the points 0.0; the points of a race result are never null;
  and the race results that the loader adds to the store are such rows, built from the
  rows of the results table.
\<close>

theorem missing_points_default_to_zero:
  "(race_result_of rt race_entry d t r = Inr x \<longrightarrow>
      points x \<noteq> None \<and> (pd_isna (row_get r ''Points'') \<longrightarrow> points x = Some (Finite 0)))
   \<and> (cur s = saved s \<and> load_race_results rt race_entry session s = (res, s') \<longrightarrow>
      (\<exists>new. saved s' = (saved s)\<lparr>race_results := race_results (saved s) @ new\<rparr>
         \<and> list_all (\<lambda>y. points y \<noteq> None
              \<and> (\<exists>r' \<in> set (results session). \<exists>d' t'.
                    race_result_of rt race_entry d' t' r' = Inr y)) new))"
proof -
  have a: "points x \<noteq> None \<and> (pd_isna (row_get r ''Points'') \<longrightarrow> points x = Some (Finite 0))"
    if "race_result_of rt race_entry d t r = Inr x"
    using race_result_of_fields(3,4) [OF that] by blast
  have b: "\<exists>new. saved s' = (saved s)\<lparr>race_results := race_results (saved s) @ new\<rparr>
         \<and> list_all (\<lambda>y. points y \<noteq> None
              \<and> (\<exists>r' \<in> set (results session). \<exists>d' t'.
                    race_result_of rt race_entry d' t' r' = Inr y)) new"
    if "cur s = saved s" "load_race_results rt race_entry session s = (res, s')"
  proof -
    from load_race_results_effect [OF that] obtain new where
      n: "saved s' = (saved s)\<lparr>race_results := race_results (saved s) @ new\<rparr>"
      "list_all (built_race_result rt race_entry (results session) (drivers (saved s))) new"
      by blast
    have "list_all (\<lambda>y. points y \<noteq> None
              \<and> (\<exists>r' \<in> set (results session). \<exists>d' t'.
                    race_result_of rt race_entry d' t' r' = Inr y)) new"
      using n(2)
    proof (rule list_all_mono)
      fix y assume "built_race_result rt race_entry (results session) (drivers (saved s)) y"
      then obtain r' d' t' where "r' \<in> set (results session)"
        "race_result_of rt race_entry d' t' r' = Inr y"
        unfolding built_race_result_def by blast
      then show "points y \<noteq> None
              \<and> (\<exists>r' \<in> set (results session). \<exists>d' t'.
                    race_result_of rt race_entry d' t' r' = Inr y)"
        using race_result_of_fields(3) by blast
    qed
    then show ?thesis using n(1) by blast
  qed
  show ?thesis using a b by blast
qed

lemma example_race_result:
  "race_result_of example_rt race1 leclerc None leclerc_result
     = Inr \<lparr>rr_race_id = 1, rr_driver_id = 1, rr_team_id = None, grid_position = Some 1,
            final_position = Some 1, points = Some (Finite 0), status = ''Finished''\<rparr>"
  "pd_isna (row_get leclerc_result ''Points'')"
  by (simp_all add: leclerc_result_def example_defs eval_defs race_result_of_def points_of_def)

theorem missing_points_default_to_zero_witness:
  "race_result_of example_rt race1 leclerc None leclerc_result
     = Inr \<lparr>rr_race_id = 1, rr_driver_id = 1, rr_team_id = None, grid_position = Some 1,
            final_position = Some 1, points = Some (Finite 0), status = ''Finished''\<rparr>
   \<and> pd_isna (row_get leclerc_result ''Points'')
   \<and> points \<lparr>rr_race_id = 1, rr_driver_id = 1, rr_team_id = None, grid_position = Some 1,
            final_position = Some 1, points = Some (Finite 0), status = ''Finished''\<rparr>
        = Some (Finite 0)
   \<and> cur (session_on db1) = saved (session_on db1)
   \<and> load_race_results example_rt race1 monaco_race (session_on db1)
       = (Inr (Loaded 1), session_on db2)
   \<and> (\<exists>new. saved (session_on db2)
          = (saved (session_on db1))\<lparr>race_results := race_results (saved (session_on db1)) @ new\<rparr>
        \<and> list_all (\<lambda>y. points y \<noteq> None) new)"
proof -
  have c: "cur (session_on db1) = saved (session_on db1)" by (simp add: session_on_def)
  from missing_points_default_to_zero [of example_rt race1 leclerc None leclerc_result
      "\<lparr>rr_race_id = 1, rr_driver_id = 1, rr_team_id = None, grid_position = Some 1,
            final_position = Some 1, points = Some (Finite 0), status = ''Finished''\<rparr>"
      "session_on db1" monaco_race "Inr (Loaded 1)" "session_on db2"]
    c example_race_result example_results
  obtain new where "saved (session_on db2)
          = (saved (session_on db1))\<lparr>race_results := race_results (saved (session_on db1)) @ new\<rparr>"
     "list_all (\<lambda>y. points y \<noteq> None
              \<and> (\<exists>r' \<in> set (results monaco_race). \<exists>d' t'.
                    race_result_of example_rt race1 d' t' r' = Inr y)) new"
    by blast
  then have "\<exists>new. saved (session_on db2)
          = (saved (session_on db1))\<lparr>race_results := race_results (saved (session_on db1)) @ new\<rparr>
        \<and> list_all (\<lambda>y. points y \<noteq> None) new"
    using list_all_mono [of _ new "\<lambda>y. points y \<noteq> None"] by blast
  then show ?thesis using c example_race_result example_results by simp
qed

text \<open>
  Claim C6, as stated: every time the pipeline stores is null or a non-negative count
  of seconds. The normalizer has no test of the sign: a qualifying time of minus one
  second in the provider's table is stored as \<open>-1.0\<close>.
\<close>

theorem negative_duration_is_stored:
  "load_qualifying_results example_rt race1 negative_quali (session_on leclerc_db)
     = (Inr (Loaded 1), session_on (leclerc_db\<lparr>qualifying_results :=
          [\<lparr>qr_race_id = 1, qr_driver_id = 1, qr_position = Some 1,
            q1_time = Some (- 1), q2_time = None, q3_time = None\<rparr>]\<rparr>))
   \<and> (- 1 :: real) < 0"
  by (simp add: negative_quali_def example_defs eval_defs load_qualifying_results_def
      load_qualifying_row_def qualifying_result_of_def add_qualifying_result_def)

lemma seconds_of_Some:
  "seconds_of v = Some x \<Longrightarrow>
     \<exists>ns. v = PyTimedelta ns \<and> x = real_of_int ns / 1000000000 \<and> (0 \<le> x \<longleftrightarrow> 0 \<le> ns)"
  by (cases v) (auto simp: seconds_of_def)

text \<open>
  Claim C6, amended: every time the pipeline stores (the three qualifying times, the
  lap time) is null or the count of seconds of the provider's duration, a number and
  not a duration, which is non-negative exactly when the duration is; the duration of a
  pit stop is always null. The rows the three loaders add to the store are rows so
  built from rows of the provider.
\<close>

theorem stored_times_are_seconds_or_null:
  "(qualifying_result_of rt race_entry d r = Inr q \<longrightarrow>
      q1_time q = seconds_of (row_get r ''Q1'')
      \<and> q2_time q = seconds_of (row_get r ''Q2'')
      \<and> q3_time q = seconds_of (row_get r ''Q3''))
   \<and> (lap_time_of rt race_entry d r = Inr l \<longrightarrow>
      lt_lap_time l = seconds_of (row_get r ''LapTime''))
   \<and> (pit_stop_of rt race_entry d r = Inr p \<longrightarrow> pit_duration p = None)
   \<and> (seconds_of v = Some x \<longrightarrow>
      (\<exists>ns. v = PyTimedelta ns \<and> x = real_of_int ns / 1000000000 \<and> (0 \<le> x \<longleftrightarrow> 0 \<le> ns)))
   \<and> (cur s = saved s \<and> load_qualifying_results rt race_entry session s = (res1, s1) \<longrightarrow>
      (\<exists>new. saved s1 = (saved s)\<lparr>qualifying_results := qualifying_results (saved s) @ new\<rparr>
         \<and> list_all (\<lambda>y. \<exists>r' \<in> set (results session). \<exists>d'.
              qualifying_result_of rt race_entry d' r' = Inr y) new))
   \<and> (cur s = saved s \<and> load_lap_times_sample rt race_entry session s = (res2, s2) \<longrightarrow>
      (\<exists>new. saved s2 = (saved s)\<lparr>lap_times := lap_times (saved s) @ new\<rparr>
         \<and> list_all (\<lambda>y. \<exists>r' \<in> set (laps session). \<exists>d'.
              lap_time_of rt race_entry d' r' = Inr y) new))
   \<and> (cur s = saved s \<and> load_pit_stops rt race_entry session s = (res3, s3) \<longrightarrow>
      (\<exists>new. saved s3 = (saved s)\<lparr>pit_stops := pit_stops (saved s) @ new\<rparr>
         \<and> list_all (\<lambda>y. \<exists>r' \<in> set (laps session). \<exists>d'.
              pit_stop_of rt race_entry d' r' = Inr y) new))"
proof -
  have a: "q1_time q = seconds_of (row_get r ''Q1'')
      \<and> q2_time q = seconds_of (row_get r ''Q2'')
      \<and> q3_time q = seconds_of (row_get r ''Q3'')"
    if "qualifying_result_of rt race_entry d r = Inr q"
    using qualifying_result_of_fields(3,4,5) [OF that] by simp
  have b: "lt_lap_time l = seconds_of (row_get r ''LapTime'')"
    if "lap_time_of rt race_entry d r = Inr l"
    using lap_time_of_fields(3) [OF that] .
  have c: "pit_duration p = None" if "pit_stop_of rt race_entry d r = Inr p"
    using pit_stop_of_fields(3) [OF that] .
  have q: "\<exists>new. saved s1 = (saved s)\<lparr>qualifying_results := qualifying_results (saved s) @ new\<rparr>
         \<and> list_all (\<lambda>y. \<exists>r' \<in> set (results session). \<exists>d'.
              qualifying_result_of rt race_entry d' r' = Inr y) new"
    if "cur s = saved s" "load_qualifying_results rt race_entry session s = (res1, s1)"
  proof -
    from load_qualifying_results_effect [OF that] obtain new where
      n: "saved s1 = (saved s)\<lparr>qualifying_results := qualifying_results (saved s) @ new\<rparr>"
      "list_all (built_qualifying rt race_entry (results session) (drivers (saved s))) new"
      by blast
    have "list_all (\<lambda>y. \<exists>r' \<in> set (results session). \<exists>d'.
              qualifying_result_of rt race_entry d' r' = Inr y) new"
      using n(2) by (rule list_all_mono) (auto simp: built_qualifying_def)
    then show ?thesis using n(1) by blast
  qed
  have l: "\<exists>new. saved s2 = (saved s)\<lparr>lap_times := lap_times (saved s) @ new\<rparr>
         \<and> list_all (\<lambda>y. \<exists>r' \<in> set (laps session). \<exists>d'.
              lap_time_of rt race_entry d' r' = Inr y) new"
    if "cur s = saved s" "load_lap_times_sample rt race_entry session s = (res2, s2)"
  proof -
    from load_lap_times_sample_effect [OF that] obtain new where
      n: "saved s2 = (saved s)\<lparr>lap_times := lap_times (saved s) @ new\<rparr>"
      "list_all (built_lap_time rt race_entry (laps session) (drivers (saved s))) new"
      by blast
    have "list_all (\<lambda>y. \<exists>r' \<in> set (laps session). \<exists>d'.
              lap_time_of rt race_entry d' r' = Inr y) new"
      using n(2) by (rule list_all_mono) (auto simp: built_lap_time_def)
    then show ?thesis using n(1) by blast
  qed
  have p: "\<exists>new. saved s3 = (saved s)\<lparr>pit_stops := pit_stops (saved s) @ new\<rparr>
         \<and> list_all (\<lambda>y. \<exists>r' \<in> set (laps session). \<exists>d'.
              pit_stop_of rt race_entry d' r' = Inr y) new"
    if "cur s = saved s" "load_pit_stops rt race_entry session s = (res3, s3)"
  proof -
    from load_pit_stops_effect [OF that] obtain new where
      n: "saved s3 = (saved s)\<lparr>pit_stops := pit_stops (saved s) @ new\<rparr>"
      "list_all (built_pit_stop rt race_entry (laps session) (drivers (saved s))) new"
      by blast
    have "list_all (\<lambda>y. \<exists>r' \<in> set (laps session). \<exists>d'.
              pit_stop_of rt race_entry d' r' = Inr y) new"
      using n(2) by (rule list_all_mono) (auto simp: built_pit_stop_def)
    then show ?thesis using n(1) by blast
  qed
  show ?thesis using a b c q l p seconds_of_Some [of v x] by blast
qed

lemma example_timed:
  "qualifying_result_of example_rt race1 leclerc timed_row
     = Inr \<lparr>qr_race_id = 1, qr_driver_id = 1, qr_position = Some 1,
            q1_time = Some 71, q2_time = None, q3_time = None\<rparr>"
  "lap_time_of example_rt race1 leclerc timed_row
     = Inr \<lparr>lt_race_id = 1, lt_driver_id = 1, lt_lap_number = Some 1, lt_lap_time = Some 80,
            lt_compound = None, tyre_life = None\<rparr>"
  "pit_stop_of example_rt race1 leclerc timed_row
     = Inr \<lparr>ps_race_id = 1, ps_driver_id = 1, ps_lap_number = Some 1, pit_duration = None,
            compound_after = None\<rparr>"
  "seconds_of (PyTimedelta 71000000000) = Some 71"
  by (simp_all add: timed_row_def example_defs eval_defs qualifying_result_of_def
      lap_time_of_def pit_stop_of_def tyre_life_of_def seconds_of_def)

theorem stored_times_are_seconds_or_null_witness:
  "qualifying_result_of example_rt race1 leclerc timed_row
     = Inr \<lparr>qr_race_id = 1, qr_driver_id = 1, qr_position = Some 1,
            q1_time = Some 71, q2_time = None, q3_time = None\<rparr>
   \<and> seconds_of (row_get timed_row ''Q1'') = Some 71
   \<and> seconds_of (row_get timed_row ''Q2'') = None
   \<and> seconds_of (row_get timed_row ''Q3'') = None
   \<and> lap_time_of example_rt race1 leclerc timed_row
     = Inr \<lparr>lt_race_id = 1, lt_driver_id = 1, lt_lap_number = Some 1, lt_lap_time = Some 80,
            lt_compound = None, tyre_life = None\<rparr>
   \<and> seconds_of (row_get timed_row ''LapTime'') = Some 80
   \<and> pit_stop_of example_rt race1 leclerc timed_row
     = Inr \<lparr>ps_race_id = 1, ps_driver_id = 1, ps_lap_number = Some 1, pit_duration = None,
            compound_after = None\<rparr>
   \<and> seconds_of (PyTimedelta 71000000000) = Some 71
   \<and> (\<exists>ns. PyTimedelta 71000000000 = PyTimedelta ns \<and> (71 :: real) = real_of_int ns / 1000000000
         \<and> 0 \<le> ns)
   \<and> cur (session_on leclerc_db) = saved (session_on leclerc_db)
   \<and> load_lap_times_sample example_rt race1 monaco_race (session_on leclerc_db)
       = (Inr (Loaded 2), session_on (leclerc_db\<lparr>lap_times := lap_times db3\<rparr>))
   \<and> (\<exists>new. saved (session_on (leclerc_db\<lparr>lap_times := lap_times db3\<rparr>))
          = (saved (session_on leclerc_db))\<lparr>lap_times :=
              lap_times (saved (session_on leclerc_db)) @ new\<rparr>
        \<and> list_all (\<lambda>y. \<exists>r' \<in> set (laps monaco_race). \<exists>d'.
              lap_time_of example_rt race1 d' r' = Inr y) new)"
proof -
  have c: "cur (session_on leclerc_db) = saved (session_on leclerc_db)"
    by (simp add: session_on_def)
  from stored_times_are_seconds_or_null [of example_rt race1 leclerc timed_row
      "\<lparr>qr_race_id = 1, qr_driver_id = 1, qr_position = Some 1,
            q1_time = Some 71, q2_time = None, q3_time = None\<rparr>"
      "\<lparr>lt_race_id = 1, lt_driver_id = 1, lt_lap_number = Some 1, lt_lap_time = Some 80,
            lt_compound = None, tyre_life = None\<rparr>"
      "\<lparr>ps_race_id = 1, ps_driver_id = 1, ps_lap_number = Some 1, pit_duration = None,
            compound_after = None\<rparr>"
      "PyTimedelta 71000000000" 71 "session_on leclerc_db" monaco_race
      "Inr (Loaded 1)" "session_on (leclerc_db\<lparr>qualifying_results :=
          [\<lparr>qr_race_id = 1, qr_driver_id = 1, qr_position = Some 1,
            q1_time = None, q2_time = None, q3_time = None\<rparr>]\<rparr>)"
      "Inr (Loaded 2)" "session_on (leclerc_db\<lparr>lap_times := lap_times db3\<rparr>)"
      "Inr (Loaded 1)" "session_on (leclerc_db\<lparr>pit_stops := pit_stops db4\<rparr>)"]
    c example_timed example_quali_race example_laps_first example_pits_first
  show ?thesis by auto
qed

lemma for_each_weather_exact:
  "list_all2 (\<lambda>r w. weather_entry_of rt race_entry r = Inr w) rows ws \<Longrightarrow>
     for_each (load_weather_row rt race_entry) rows s
       = (Inr (length rows), s\<lparr>cur := (cur s)\<lparr>weather_rows := weather_rows (cur s) @ ws\<rparr>\<rparr>)"
proof (induction rows ws arbitrary: s rule: list_all2_induct)
  case Nil
  then show ?case by simp
next
  case (Cons r rows w ws)
  have step: "load_weather_row rt race_entry r s
      = (Inr 1, s\<lparr>cur := (cur s)\<lparr>weather_rows := weather_rows (cur s) @ [w]\<rparr>\<rparr>)"
    using Cons(1) by (simp add: load_weather_row_def io_defs add_weather_def)
  show ?case
    by (simp add: step Cons.IH)
qed

text \<open>
  Claim C8, as stated: a weather series of length \<open>L\<close> yields exactly \<open>ceil(L/10)\<close>
  stored rows. A series of one sample whose air temperature is the text "n/a" yields
  none: \<^verbatim>\<open>float\<close> raises, the batch is rolled back and the loader reports the failure.
\<close>

theorem unconvertible_weather_sample_stores_nothing:
  "weather bad_weather = Some [[(''AirTemp'', PyStr ''n/a'')]]
   \<and> (length [[(''AirTemp'', PyStr ''n/a'')]] + 9) div 10 = (1 :: nat)
   \<and> load_weather_data example_rt race1 bad_weather (session_on empty_db)
       = (Inr (Failed ValueError), session_on empty_db)
   \<and> weather_rows (saved (session_on empty_db)) = []"
  by (simp add: bad_weather_def example_defs eval_defs load_weather_data_def
      load_weather_row_def weather_entry_of_def add_weather_def)

text \<open>
  Claim C8, amended: when the session has no weather series the loader writes nothing
  and reports so, without an error. When it has one of length \<open>L\<close>, and every sampled
  row converts (each of the four measures is missing or convertible by \<^verbatim>\<open>float\<close>), the
  loader, from a consistent session, stores exactly \<open>ceil(L/10)\<close> rows, the ones built
  from the samples of index 0, 10, 20, ..., in this order.
\<close>

theorem weather_down_sampling:
  "(weather session = None \<longrightarrow>
      load_weather_data rt race_entry session s = (Inr NoWeatherData, s))
   \<and> (consistent s \<and> weather session = Some wd
       \<and> list_all2 (\<lambda>r w. weather_entry_of rt race_entry r = Inr w) (iloc_step 10 wd) ws \<longrightarrow>
      load_weather_data rt race_entry session s
        = (Inr (Loaded ((length wd + 9) div 10)),
           session_on ((saved s)\<lparr>weather_rows := weather_rows (saved s) @ ws\<rparr>))
      \<and> length ws = (length wd + 9) div 10
      \<and> iloc_step 10 wd = map (\<lambda>i. wd ! (10 * i)) [0..<(length wd + 9) div 10])"
proof -
  have none: "load_weather_data rt race_entry session s = (Inr NoWeatherData, s)"
    if "weather session = None"
    using that by (simp add: load_weather_data_def io_defs)
  have some: "load_weather_data rt race_entry session s
        = (Inr (Loaded ((length wd + 9) div 10)),
           session_on ((saved s)\<lparr>weather_rows := weather_rows (saved s) @ ws\<rparr>))
      \<and> length ws = (length wd + 9) div 10
      \<and> iloc_step 10 wd = map (\<lambda>i. wd ! (10 * i)) [0..<(length wd + 9) div 10]"
    if c: "consistent s" and w: "weather session = Some wd"
      and a: "list_all2 (\<lambda>r w. weather_entry_of rt race_entry r = Inr w) (iloc_step 10 wd) ws"
  proof -
    have len: "length (iloc_step 10 wd) = (length wd + 9) div 10"
      using iloc_step_length [of 9 wd] by simp
    have lws: "length ws = (length wd + 9) div 10"
      using a len by (simp add: list_all2_lengthD [symmetric])
    have ok: "integrity_ok ((cur s)\<lparr>weather_rows := weather_rows (cur s) @ ws\<rparr>)"
      using c by (simp add: consistent_def integrity_ok_def)
    have "load_weather_data rt race_entry session s
        = (Inr (Loaded ((length wd + 9) div 10)),
           session_on ((saved s)\<lparr>weather_rows := weather_rows (saved s) @ ws\<rparr>))"
      using w ok c
      by (simp add: load_weather_data_def io_defs for_each_weather_exact [OF a] commit_def len
          session_on_def consistent_def)
    then show ?thesis using lws iloc_step_10 by blast
  qed
  show ?thesis using none some by blast
qed

lemma sampled47:
  "iloc_step 10 (map (\<lambda>i. [(''AirTemp'', PyInt (int i))]) [0..<47])
     = map (\<lambda>i. [(''AirTemp'', PyInt i)]) [0, 10, 20, 30, 40]"
  by code_simp

lemma example47:
  "list_all2 (\<lambda>r w. weather_entry_of example_rt race1 r = Inr w)
     (iloc_step 10 (map (\<lambda>i. [(''AirTemp'', PyInt (int i))]) [0..<47])) stored47"
  unfolding sampled47
  by (simp add: stored47_def example_defs eval_defs weather_entry_of_def rainfall_of_def)

theorem weather_down_sampling_witness:
  "load_weather_data example_rt race1 monaco_quali (session_on leclerc_db)
     = (Inr NoWeatherData, session_on leclerc_db)
   \<and> consistent (session_on leclerc_db)
   \<and> length (map (\<lambda>i. [(''AirTemp'', PyInt (int i))]) [0..<47]) = 47
   \<and> load_weather_data example_rt race1 weather47 (session_on leclerc_db)
       = (Inr (Loaded 5), session_on (leclerc_db\<lparr>weather_rows := stored47\<rparr>))
   \<and> length stored47 = 5
   \<and> map air_temp stored47
       = [Some (Finite 0), Some (Finite 10), Some (Finite 20), Some (Finite 30), Some (Finite 40)]"
proof -
  have c: "consistent (session_on leclerc_db)"
    by (simp add: consistent_def example_defs integrity_ok_def)
  have n: "weather monaco_quali = None" by (simp add: monaco_quali_def)
  have w: "weather weather47 = Some (map (\<lambda>i. [(''AirTemp'', PyInt (int i))]) [0..<47])"
    by (simp add: weather47_def)
  have e: "saved (session_on leclerc_db) = leclerc_db" "weather_rows leclerc_db = []"
    by (simp_all add: example_defs)
  from weather_down_sampling [of monaco_quali example_rt race1 "session_on leclerc_db"] n
  have 1: "load_weather_data example_rt race1 monaco_quali (session_on leclerc_db)
     = (Inr NoWeatherData, session_on leclerc_db)" by blast
  from weather_down_sampling [of weather47 example_rt race1 "session_on leclerc_db"
      "map (\<lambda>i. [(''AirTemp'', PyInt (int i))]) [0..<47]" stored47] c w example47
  have 2: "load_weather_data example_rt race1 weather47 (session_on leclerc_db)
       = (Inr (Loaded 5), session_on (leclerc_db\<lparr>weather_rows := stored47\<rparr>))"
    by (simp add: e)
  show ?thesis using 1 2 c by (simp add: stored47_def)
qed

end
